theory Spec2Isabelle
  imports Complex_Main "HOL-Library.AList" "HOL-Library.Char_ord" "HOL-Library.List_Lexorder"
begin

section \<open>Numbers\<close>

text \<open>
  The numeric cells of a pandas table are float64 values (an int64 column becomes float64
  as soon as it is divided). They are modelled as real numbers with the three special
  values of IEEE arithmetic, because the code divides without any guard and numpy then
  returns an infinity or NaN instead of raising. Rounding, overflow and the sign of zero
  are not modelled.
\<close>

datatype fval = Fin real | PInf | NInf | NaN

fun fneg :: "fval \<Rightarrow> fval" where
  "fneg (Fin a) = Fin (- a)"
| "fneg PInf = NInf"
| "fneg NInf = PInf"
| "fneg NaN = NaN"

fun fadd :: "fval \<Rightarrow> fval \<Rightarrow> fval" where
  "fadd NaN _ = NaN"
| "fadd _ NaN = NaN"
| "fadd (Fin a) (Fin b) = Fin (a + b)"
| "fadd PInf NInf = NaN"
| "fadd NInf PInf = NaN"
| "fadd PInf _ = PInf"
| "fadd _ PInf = PInf"
| "fadd NInf _ = NInf"
| "fadd _ NInf = NInf"

definition fsub :: "fval \<Rightarrow> fval \<Rightarrow> fval" where
  "fsub a b = fadd a (fneg b)"

definition signed_inf :: "bool \<Rightarrow> fval" where
  "signed_inf positive = (if positive then PInf else NInf)"

fun fmul :: "fval \<Rightarrow> fval \<Rightarrow> fval" where
  "fmul NaN _ = NaN"
| "fmul _ NaN = NaN"
| "fmul (Fin a) (Fin b) = Fin (a * b)"
| "fmul (Fin a) PInf = (if a = 0 then NaN else signed_inf (0 < a))"
| "fmul (Fin a) NInf = (if a = 0 then NaN else signed_inf (a < 0))"
| "fmul PInf (Fin b) = (if b = 0 then NaN else signed_inf (0 < b))"
| "fmul NInf (Fin b) = (if b = 0 then NaN else signed_inf (b < 0))"
| "fmul PInf PInf = PInf"
| "fmul NInf NInf = PInf"
| "fmul PInf NInf = NInf"
| "fmul NInf PInf = NInf"

text \<open>
  Division of numpy scalars and arrays never raises: a non-zero number over zero is an
  infinity, zero over zero is NaN.
\<close>

fun fdiv :: "fval \<Rightarrow> fval \<Rightarrow> fval" where
  "fdiv NaN _ = NaN"
| "fdiv _ NaN = NaN"
| "fdiv (Fin a) (Fin b) =
     (if b = 0 then (if a = 0 then NaN else signed_inf (0 < a)) else Fin (a / b))"
| "fdiv (Fin a) PInf = Fin 0"
| "fdiv (Fin a) NInf = Fin 0"
| "fdiv PInf (Fin b) = signed_inf (0 \<le> b)"
| "fdiv NInf (Fin b) = signed_inf (b < 0)"
| "fdiv PInf PInf = NaN"
| "fdiv PInf NInf = NaN"
| "fdiv NInf PInf = NaN"
| "fdiv NInf NInf = NaN"

text \<open>
  \<open>x ** y\<close> on a float64 for the two exponents the code uses, \<open>1/4\<close> and \<open>1/5\<close>
  (positive and not an integer): a negative base gives NaN, both infinities give the
  positive infinity.
\<close>

fun fpow :: "fval \<Rightarrow> real \<Rightarrow> fval" where
  "fpow (Fin a) y = (if a < 0 then NaN else Fin (a powr y))"
| "fpow PInf y = PInf"
| "fpow NInf y = PInf"
| "fpow NaN y = NaN"

definition notna :: "fval \<Rightarrow> bool" where
  "notna v = (v \<noteq> NaN)"

definition fsum :: "fval list \<Rightarrow> fval" where
  "fsum vs = foldl fadd (Fin 0) vs"

text \<open>\<open>Series.mean()\<close>: the null values are skipped; with nothing left the mean is NaN.\<close>

definition mean :: "fval list \<Rightarrow> fval" where
  "mean vs =
     (let ws = filter notna vs
      in if ws = [] then NaN else fdiv (fsum ws) (Fin (real (length ws))))"


section \<open>Tables\<close>

text \<open>
  A column read from a CSV file is numeric or holds strings (dtype object). A table is
  the ordered list of its named columns, all of one length; a row is the same position
  in every column.
\<close>

datatype column = NumCol "fval list" | StrCol "string list"

type_synonym dataframe = "(string \<times> column) list"

datatype error =
    KeyError string
  | IndexError
  | TypeError
  | ValueError
  | ReadError string

fun col_len :: "column \<Rightarrow> nat" where
  "col_len (NumCol xs) = length xs"
| "col_len (StrCol ss) = length ss"

definition nrows :: "dataframe \<Rightarrow> nat" where
  "nrows df = (case df of [] \<Rightarrow> 0 | (_, c) # _ \<Rightarrow> col_len c)"

definition shape :: "dataframe \<Rightarrow> nat \<times> nat" where
  "shape df = (nrows df, length df)"

definition columns :: "dataframe \<Rightarrow> string list" where
  "columns df = map fst df"

text \<open>\<open>df[name]\<close> raises KeyError when the table has no such column.\<close>

definition getcol :: "dataframe \<Rightarrow> string \<Rightarrow> error + column" where
  "getcol df name = (case map_of df name of None \<Rightarrow> Inl (KeyError name) | Some c \<Rightarrow> Inr c)"

text \<open>
  \<open>df[name] = values\<close> replaces the column where it stands, or appends a new last
  column.
\<close>

definition setcol :: "string \<Rightarrow> column \<Rightarrow> dataframe \<Rightarrow> dataframe" where
  "setcol name c df = AList.update name c df"

text \<open>
  The numbers of a column for arithmetic. Arithmetic on strings raises TypeError; an
  empty column has nothing to raise on.
\<close>

fun numbers :: "column \<Rightarrow> error + fval list" where
  "numbers (NumCol xs) = Inr xs"
| "numbers (StrCol ss) = (if ss = [] then Inr [] else Inl TypeError)"


section \<open>Growth rates\<close>

text \<open>
  \<open>Series.pct_change()\<close> is \<open>data / data.shift(1) - 1\<close> after the null values of
  \<open>data\<close> have been filled forward (the default \<open>fill_method='pad'\<close>).
\<close>

fun ffill_from :: "fval \<Rightarrow> fval list \<Rightarrow> fval list" where
  "ffill_from l [] = []"
| "ffill_from l (x # xs) = (if notna x then x # ffill_from x xs else l # ffill_from l xs)"

definition ffill :: "fval list \<Rightarrow> fval list" where
  "ffill xs = ffill_from NaN xs"

definition shift1 :: "fval list \<Rightarrow> fval list" where
  "shift1 xs = (if xs = [] then [] else NaN # butlast xs)"

definition pct_change :: "fval list \<Rightarrow> fval list" where
  "pct_change xs =
     (let d = ffill xs in map2 (\<lambda>cur prev. fsub (fdiv cur prev) (Fin 1)) d (shift1 d))"

text \<open>\<open>df[name].pct_change() * 100\<close>, the growth column of \<open>analyze_historical_trends\<close>.\<close>

definition growth_pct :: "dataframe \<Rightarrow> string \<Rightarrow> error + fval list" where
  "growth_pct df name =
     (case getcol df name of
        Inl e \<Rightarrow> Inl e
      | Inr c \<Rightarrow>
          (case numbers c of
             Inl e \<Rightarrow> Inl e
           | Inr xs \<Rightarrow> Inr (map (\<lambda>v. fmul v (Fin 100)) (pct_change xs))))"

text \<open>
  \<open>s.iloc[-1]\<close> and \<open>s.iloc[0]\<close> raise IndexError on an empty column. The operator is
  applied to the last and the first value; on strings it raises TypeError.
\<close>

definition last_first :: "(fval \<Rightarrow> fval \<Rightarrow> fval) \<Rightarrow> column \<Rightarrow> error + fval" where
  "last_first f c =
     (case c of
        NumCol xs \<Rightarrow> (if xs = [] then Inl IndexError else Inr (f (last xs) (hd xs)))
      | StrCol ss \<Rightarrow> (if ss = [] then Inl IndexError else Inl TypeError))"

text \<open>
  \<open>((s.iloc[-1] / s.iloc[0]) ** (1/4) - 1) * 100\<close>, the expression of \<open>demand_cagr\<close>
  and \<open>cost_cagr\<close> in \<open>analyze_historical_trends\<close>. The exponent is the literal
  \<open>1/4\<close>, whatever the number of rows.
\<close>

definition cagr :: "dataframe \<Rightarrow> string \<Rightarrow> error + fval" where
  "cagr df name =
     (case getcol df name of
        Inl e \<Rightarrow> Inl e
      | Inr c \<Rightarrow>
          last_first (\<lambda>l f. fmul (fsub (fpow (fdiv l f) (1/4)) (Fin 1)) (Fin 100)) c)"

text \<open>
  \<open>((s.iloc[-1] / s.iloc[0]) ** (1/5) - 1) * 100\<close>, the expression of
  \<open>market_value_cagr\<close> in \<open>display_key_metrics\<close> of the standalone program.
\<close>

definition market_value_cagr :: "dataframe \<Rightarrow> error + fval" where
  "market_value_cagr df =
     (case getcol df ''Market_Value_Cr'' of
        Inl e \<Rightarrow> Inl e
      | Inr c \<Rightarrow>
          last_first (\<lambda>l f. fmul (fsub (fpow (fdiv l f) (1/5)) (Fin 1)) (Fin 100)) c)"


section \<open>Selecting rows and columns\<close>

fun filter_col :: "bool list \<Rightarrow> column \<Rightarrow> column" where
  "filter_col m (NumCol xs) = NumCol (map snd (filter fst (zip m xs)))"
| "filter_col m (StrCol ss) = StrCol (map snd (filter fst (zip m ss)))"

text \<open>\<open>df[mask]\<close>: the rows where the mask is true, in their order.\<close>

definition filter_rows :: "bool list \<Rightarrow> dataframe \<Rightarrow> dataframe" where
  "filter_rows m df = map (\<lambda>(name, c). (name, filter_col m c)) df"

text \<open>\<open>column == number\<close>, element by element; a string never equals a number.\<close>

fun eq_num :: "column \<Rightarrow> real \<Rightarrow> bool list" where
  "eq_num (NumCol xs) y = map (\<lambda>v. v = Fin y) xs"
| "eq_num (StrCol ss) y = map (\<lambda>_. False) ss"

text \<open>\<open>column.isin(strings)\<close>, element by element.\<close>

fun isin :: "column \<Rightarrow> string list \<Rightarrow> bool list" where
  "isin (StrCol ss) names = map (\<lambda>s. s \<in> set names) ss"
| "isin (NumCol xs) names = map (\<lambda>_. False) xs"

text \<open>
  \<open>df[[names]]\<close>: the named columns in the order asked for. A missing one raises
  KeyError (pandas names all the missing columns in the message; the model keeps the
  first).
\<close>

fun select :: "string list \<Rightarrow> dataframe \<Rightarrow> error + dataframe" where
  "select [] df = Inr []"
| "select (name # names) df =
     (case getcol df name of
        Inl e \<Rightarrow> Inl e
      | Inr c \<Rightarrow> (case select names df of Inl e \<Rightarrow> Inl e | Inr r \<Rightarrow> Inr ((name, c) # r)))"

fun take_col :: "nat list \<Rightarrow> column \<Rightarrow> column" where
  "take_col idx (NumCol xs) = NumCol (map (\<lambda>i. xs ! i) (filter (\<lambda>i. i < length xs) idx))"
| "take_col idx (StrCol ss) = StrCol (map (\<lambda>i. ss ! i) (filter (\<lambda>i. i < length ss) idx))"

definition take_rows :: "nat list \<Rightarrow> dataframe \<Rightarrow> dataframe" where
  "take_rows idx df = map (\<lambda>(name, c). (name, take_col idx c)) df"

definition head :: "nat \<Rightarrow> dataframe \<Rightarrow> dataframe" where
  "head n df = take_rows [0 ..< n] df"


section \<open>Sorting and grouping\<close>

fun insort_by :: "('k \<Rightarrow> 'k \<Rightarrow> bool) \<Rightarrow> 'k \<Rightarrow> 'k list \<Rightarrow> 'k list" where
  "insort_by le x [] = [x]"
| "insort_by le x (y # ys) = (if le x y then x # y # ys else y # insort_by le x ys)"

text \<open>A stable sort: of two equal elements the earlier one stays first.\<close>

definition sort_by :: "('k \<Rightarrow> 'k \<Rightarrow> bool) \<Rightarrow> 'k list \<Rightarrow> 'k list" where
  "sort_by le xs = foldr (insort_by le) xs []"

fun fle :: "fval \<Rightarrow> fval \<Rightarrow> bool" where
  "fle NaN _ = False"
| "fle _ NaN = False"
| "fle NInf _ = True"
| "fle _ PInf = True"
| "fle (Fin a) (Fin b) = (a \<le> b)"
| "fle _ _ = False"

definition group_mean :: "'k list \<Rightarrow> fval list \<Rightarrow> 'k \<Rightarrow> fval" where
  "group_mean ks vs k = mean (map snd (filter (\<lambda>(k', v). k' = k) (zip ks vs)))"

text \<open>
  \<open>df.groupby(by)[name].mean()\<close>: one group for each distinct value of the \<open>by\<close>
  column, in sorted order, rows with a null key left out; the mean of a group skips
  null values. The result is the column of group keys and the group means. A missing
  column raises KeyError, the mean of strings raises TypeError.
\<close>

definition groupby_mean :: "dataframe \<Rightarrow> string \<Rightarrow> string \<Rightarrow> error + column \<times> fval list" where
  "groupby_mean df by name =
     (case getcol df by of
        Inl e \<Rightarrow> Inl e
      | Inr kc \<Rightarrow>
     (case getcol df name of
        Inl e \<Rightarrow> Inl e
      | Inr vc \<Rightarrow>
     (case numbers vc of
        Inl e \<Rightarrow> Inl e
      | Inr vs \<Rightarrow>
     (case kc of
        StrCol ks \<Rightarrow>
          (let gs = sort_by (\<le>) (remdups ks) in Inr (StrCol gs, map (group_mean ks vs) gs))
      | NumCol ks \<Rightarrow>
          (let gs = sort_by fle (remdups (filter notna ks))
           in Inr (NumCol gs, map (group_mean ks vs) gs))))))"

text \<open>
  \<open>nlargest(n, ...)\<close> and \<open>nsmallest(n, ...)\<close>: the positions of the rows in
  descending (ascending) order of the value, ties in row order, null values last.
\<close>

definition desc_le :: "fval \<Rightarrow> fval \<Rightarrow> bool" where
  "desc_le a b = (b = NaN \<or> (a \<noteq> NaN \<and> fle b a))"

definition asc_le :: "fval \<Rightarrow> fval \<Rightarrow> bool" where
  "asc_le a b = (b = NaN \<or> (a \<noteq> NaN \<and> fle a b))"

definition nlargest :: "nat \<Rightarrow> fval list \<Rightarrow> dataframe \<Rightarrow> dataframe" where
  "nlargest n vs df =
     take_rows (take n (sort_by (\<lambda>i j. desc_le (vs ! i) (vs ! j)) [0 ..< length vs])) df"

definition nsmallest :: "nat \<Rightarrow> fval list \<Rightarrow> dataframe \<Rightarrow> dataframe" where
  "nsmallest n vs df =
     take_rows (take n (sort_by (\<lambda>i j. asc_le (vs ! i) (vs ! j)) [0 ..< length vs])) df"


section \<open>Seasonal index\<close>

text \<open>
  \<open>monthly_avg\<close> of \<open>analyze_seasonal_patterns\<close>: the mean demand of each month, and
  the column \<open>Seasonal_Index\<close>, each mean divided by the mean of the means.
\<close>

definition seasonal_index :: "fval list \<Rightarrow> fval list" where
  "seasonal_index avgs = map (\<lambda>a. fdiv a (mean avgs)) avgs"

definition monthly_avg :: "dataframe \<Rightarrow> error + dataframe" where
  "monthly_avg df =
     (case groupby_mean df ''Month'' ''Demand_MU'' of
        Inl e \<Rightarrow> Inl e
      | Inr (months, avgs) \<Rightarrow>
          Inr (setcol ''Seasonal_Index'' (NumCol (seasonal_index avgs))
                 [(''Month'', months), (''Demand_MU'', NumCol avgs)]))"


section \<open>Sector growth\<close>

datatype cell = Num fval | Str string

fun cells :: "column \<Rightarrow> cell list" where
  "cells (NumCol xs) = map Num xs"
| "cells (StrCol ss) = map Str ss"

text \<open>
  The order of index labels. The labels of one index come from one column, so a number
  is never compared with a string; the last two equations only make the function total.
\<close>

fun cell_le :: "cell \<Rightarrow> cell \<Rightarrow> bool" where
  "cell_le (Str a) (Str b) = (a \<le> b)"
| "cell_le (Num a) (Num b) = fle a b"
| "cell_le (Num a) (Str b) = True"
| "cell_le (Str a) (Num b) = False"

text \<open>A series: the index labels with their values.\<close>

type_synonym series = "(cell \<times> fval) list"

definition values_at :: "series \<Rightarrow> cell \<Rightarrow> fval list" where
  "values_at s k =
     (let vs = map snd (filter (\<lambda>(k', v). k' = k) s) in if vs = [] then [NaN] else vs)"

text \<open>
  \<open>left / right\<close> on two series. With equal indexes the division is element by
  element. Otherwise pandas aligns both on the union of the labels (an outer join,
  sorted unless one side is empty): a label of one side only gets the null value on the
  other side, so it stays in the result with a null quotient.
\<close>

definition series_div :: "series \<Rightarrow> series \<Rightarrow> series" where
  "series_div left right =
     (if map fst left = map fst right
      then map2 (\<lambda>(k, a) (_, b). (k, fdiv a b)) left right
      else
        (let labels = remdups (map fst left @ map fst right);
             joined = (if left = [] \<or> right = [] then labels else sort_by cell_le labels)
         in concat (map (\<lambda>k. concat (map (\<lambda>a. map (\<lambda>b. (k, fdiv a b)) (values_at right k))
                                            (values_at left k)))
                        joined)))"

text \<open>\<open>df.set_index(idx)[name]\<close> as a series of numbers.\<close>

definition indexed :: "dataframe \<Rightarrow> string \<Rightarrow> string \<Rightarrow> error + series" where
  "indexed df idx name =
     (case getcol df idx of
        Inl e \<Rightarrow> Inl e
      | Inr kc \<Rightarrow>
     (case getcol df name of
        Inl e \<Rightarrow> Inl e
      | Inr vc \<Rightarrow>
     (case numbers vc of
        Inl e \<Rightarrow> Inl e
      | Inr vs \<Rightarrow> Inr (zip (cells kc) vs))))"

text \<open>
  \<open>sector_growth\<close> of \<open>analyze_sector_wise_consumption\<close>:
  \<open>(df_2030.set_index('Sector')['Demand_MU'] / df_2025.set_index('Sector')['Demand_MU'] - 1) * 100\<close>.
\<close>

definition sector_growth :: "dataframe \<Rightarrow> dataframe \<Rightarrow> error + series" where
  "sector_growth df_2025 df_2030 =
     (case indexed df_2030 ''Sector'' ''Demand_MU'' of
        Inl e \<Rightarrow> Inl e
      | Inr s30 \<Rightarrow>
     (case indexed df_2025 ''Sector'' ''Demand_MU'' of
        Inl e \<Rightarrow> Inl e
      | Inr s25 \<Rightarrow>
          Inr (map (\<lambda>(k, q). (k, fmul (fsub q (Fin 1)) (Fin 100))) (series_div s30 s25))))"

text \<open>\<open>df[df['Year'] == y]\<close>.\<close>

definition year_rows :: "dataframe \<Rightarrow> real \<Rightarrow> error + dataframe" where
  "year_rows df y =
     (case getcol df ''Year'' of
        Inl e \<Rightarrow> Inl e
      | Inr yc \<Rightarrow> Inr (filter_rows (eq_num yc y) df))"


section \<open>Daily load profiles\<close>

definition weekend_days :: "string list" where
  "weekend_days = [''Saturday'', ''Sunday'']"

text \<open>
  \<open>weekday_avg\<close> and \<open>weekend_avg\<close> of \<open>create_daily_load_profile\<close>: the rows whose
  day is not (is) a weekend day, averaged by hour.
\<close>

definition weekday_avg :: "dataframe \<Rightarrow> error + column \<times> fval list" where
  "weekday_avg df =
     (case getcol df ''Day'' of
        Inl e \<Rightarrow> Inl e
      | Inr dc \<Rightarrow>
          groupby_mean (filter_rows (map Not (isin dc weekend_days)) df) ''Hour'' ''Demand_MW'')"

definition weekend_avg :: "dataframe \<Rightarrow> error + column \<times> fval list" where
  "weekend_avg df =
     (case getcol df ''Day'' of
        Inl e \<Rightarrow> Inl e
      | Inr dc \<Rightarrow>
          groupby_mean (filter_rows (isin dc weekend_days) df) ''Hour'' ''Demand_MW'')"


section \<open>Program state and output\<close>

text \<open>
  What the chart functions hand to matplotlib and seaborn. Drawing is outside the
  program: it is a parameter \<open>render\<close> of the model, which may raise. The chart
  library calls of one function are folded into one call of \<open>render\<close>, made after the
  table operations of that function.
\<close>

datatype chart =
    DemandProjectionChart column column column
  | SeasonalHeatmap column column column
  | SectorPieChart column column
  | DailyLoadProfile "column \<times> fval list" "column \<times> fval list"
  | InfrastructureDashboard column column column column column

text \<open>
  One event for each \<open>print\<close> (and each chart shown). Fixed text keeps its ASCII
  words; rules of \<open>=\<close>, blank lines and the formatting of numbers are left out.
\<close>

datatype event =
    Text string
  | LoadedFile string "nat \<times> nat"
  | MissingFile string
  | LoadedTotal nat
  | LoadFailed error
  | Summary string "nat \<times> nat" "string list" dataframe
  | Unavailable string
  | Metric string fval
  | Frame dataframe
  | GrowthLine cell fval
  | Shown chart
  | MainFailed error

text \<open>
  The object's fields: \<open>data\<close>, a dict (insertion-ordered) from dataset key to table,
  and the standard output written so far. The field \<open>figures\<close> is never used.
\<close>

record state =
  data :: "(string \<times> dataframe) list"
  out :: "event list"

text \<open>A method either returns normally or raises; its effects up to there remain.\<close>

type_synonym step = "state \<Rightarrow> state \<times> error option"

definition say :: "event list \<Rightarrow> state \<Rightarrow> state" where
  "say evs st = st\<lparr>out := out st @ evs\<rparr>"

definition has_key :: "state \<Rightarrow> string \<Rightarrow> bool" where
  "has_key st key = (map_of (data st) key \<noteq> None)"


section \<open>Loading\<close>

text \<open>What \<open>pd.read_csv(filename)\<close> does: FileNotFoundError, another exception, or a table.\<close>

datatype read_csv = Missing | Unreadable string | Csv dataframe

definition data_files :: "(string \<times> string) list" where
  "data_files =
     [(''historical'', ''chennai_electricity_historical_2020_2024.csv''),
      (''monthly_detailed'', ''chennai_electricity_monthly_detailed_2023_2025.csv''),
      (''projections'', ''chennai_electricity_projections_2025_2030.csv''),
      (''sector_wise'', ''chennai_electricity_sector_wise_2025_2030.csv''),
      (''daily_load'', ''chennai_electricity_daily_load_profile.csv''),
      (''infrastructure'', ''chennai_electricity_infrastructure_2025_2030.csv''),
      (''economic'', ''chennai_economic_demographic_factors_2020_2030.csv''),
      (''weather'', ''chennai_weather_data_2023_2025.csv''),
      (''tariff'', ''chennai_electricity_tariff_structure_2025_2030.csv'')]"

text \<open>
  The loop of \<open>load_all_data\<close>. FileNotFoundError is caught inside the loop, which goes
  on with the next file; any other exception leaves the loop.
\<close>

fun load_loop :: "(string \<times> string) list \<Rightarrow> (string \<Rightarrow> read_csv) \<Rightarrow> state \<Rightarrow> state \<times> error option" where
  "load_loop [] fs st = (st, None)"
| "load_loop ((key, filename) # rest) fs st =
     (case fs filename of
        Missing \<Rightarrow> load_loop rest fs (say [MissingFile filename] st)
      | Unreadable msg \<Rightarrow> (st, Some (ReadError msg))
      | Csv df \<Rightarrow>
          load_loop rest fs
            (say [LoadedFile filename (shape df)] (st\<lparr>data := AList.update key df (data st)\<rparr>)))"

text \<open>
  \<open>load_all_data\<close> returns True after the loop, and False from the outer handler.
\<close>

definition load_all_data :: "(string \<Rightarrow> read_csv) \<Rightarrow> state \<Rightarrow> state \<times> bool" where
  "load_all_data fs st =
     (case load_loop data_files fs st of
        (st', None) \<Rightarrow> (say [LoadedTotal (length (data st'))] st', True)
      | (st', Some e) \<Rightarrow> (say [LoadFailed e] st', False))"

definition summary_of :: "string \<times> dataframe \<Rightarrow> event" where
  "summary_of kd =
     (case kd of (key, df) \<Rightarrow>
        Summary key (shape df) (columns df) (if nrows df \<le> 10 then df else head 3 df))"

definition display_data_summary :: "state \<Rightarrow> state" where
  "display_data_summary st = say (Text ''DATA SUMMARY'' # map summary_of (data st)) st"


section \<open>Analyses\<close>

text \<open>
  The body of \<open>analyze_historical_trends\<close> on the historical table: the table as the
  body leaves it (the growth columns are assigned in place), what it printed, and the
  exception if it raised.
\<close>

definition peak_growth :: "dataframe \<Rightarrow> error + fval" where
  "peak_growth df =
     (case getcol df ''Peak_Demand_MW'' of
        Inl e \<Rightarrow> Inl e
      | Inr c \<Rightarrow> last_first fsub c)"

definition historical_trends :: "dataframe \<Rightarrow> dataframe \<times> event list \<times> error option" where
  "historical_trends df =
     (case growth_pct df ''Demand_MU'' of
        Inl e \<Rightarrow> (df, [], Some e)
      | Inr g1 \<Rightarrow>
     (let df1 = setcol ''Demand_Growth_%'' (NumCol g1) df in
     (case growth_pct df1 ''Cost_Rs_per_unit'' of
        Inl e \<Rightarrow> (df1, [], Some e)
      | Inr g2 \<Rightarrow>
     (let df2 = setcol ''Cost_Growth_%'' (NumCol g2) df1 in
     (case cagr df2 ''Demand_MU'' of
        Inl e \<Rightarrow> (df2, [], Some e)
      | Inr demand_cagr \<Rightarrow>
     (case cagr df2 ''Cost_Rs_per_unit'' of
        Inl e \<Rightarrow> (df2, [], Some e)
      | Inr cost_cagr \<Rightarrow>
     (let printed = [Metric ''Demand CAGR (2020-2024)'' demand_cagr,
                     Metric ''Cost CAGR (2020-2024)'' cost_cagr] in
     (case peak_growth df2 of
        Inl e \<Rightarrow> (df2, printed, Some e)
      | Inr peak \<Rightarrow> (df2, printed @ [Metric ''Peak Demand Growth'' peak], None)))))))))"

definition analyze_historical_trends :: step where
  "analyze_historical_trends st =
     (case map_of (data st) ''historical'' of
        None \<Rightarrow> (say [Unavailable ''Historical data not available''] st, None)
      | Some df \<Rightarrow>
          (case historical_trends df of (df', printed, err) \<Rightarrow>
             (say (Text ''HISTORICAL TRENDS ANALYSIS (2020-2024)'' # printed)
                (st\<lparr>data := AList.update ''historical'' df' (data st)\<rparr>), err)))"

definition seasonal_patterns :: "dataframe \<Rightarrow> event list \<times> error option" where
  "seasonal_patterns df =
     (case monthly_avg df of
        Inl e \<Rightarrow> ([], Some e)
      | Inr avg \<Rightarrow>
     (case getcol avg ''Demand_MU'' of
        Inl e \<Rightarrow> ([], Some e)
      | Inr c \<Rightarrow>
     (case numbers c of
        Inl e \<Rightarrow> ([], Some e)
      | Inr vs \<Rightarrow>
          ([Text ''PEAK DEMAND MONTHS:'', Frame (nlargest 3 vs avg),
            Text ''LOW DEMAND MONTHS:'', Frame (nsmallest 3 vs avg)], None))))"

definition analyze_seasonal_patterns :: step where
  "analyze_seasonal_patterns st =
     (case map_of (data st) ''monthly_detailed'' of
        None \<Rightarrow> (say [Unavailable ''Monthly detailed data not available''] st, None)
      | Some df \<Rightarrow>
          (case seasonal_patterns df of (printed, err) \<Rightarrow>
             (say (Text ''SEASONAL PATTERNS ANALYSIS'' # printed) st, err)))"

definition sector_columns :: "string list" where
  "sector_columns = [''Sector'', ''Demand_MU'', ''Share_%'']"

definition sector_wise_consumption :: "dataframe \<Rightarrow> event list \<times> error option" where
  "sector_wise_consumption df =
     (case year_rows df 2025 of
        Inl e \<Rightarrow> ([], Some e)
      | Inr df_2025 \<Rightarrow>
     (case year_rows df 2030 of
        Inl e \<Rightarrow> ([], Some e)
      | Inr df_2030 \<Rightarrow>
     (case select sector_columns df_2025 of
        Inl e \<Rightarrow> ([Text ''2025 SECTOR BREAKDOWN:''], Some e)
      | Inr shown_2025 \<Rightarrow>
     (case select sector_columns df_2030 of
        Inl e \<Rightarrow>
          ([Text ''2025 SECTOR BREAKDOWN:'', Frame shown_2025,
            Text ''2030 PROJECTED SECTOR BREAKDOWN:''], Some e)
      | Inr shown_2030 \<Rightarrow>
     (let printed = [Text ''2025 SECTOR BREAKDOWN:'', Frame shown_2025,
                     Text ''2030 PROJECTED SECTOR BREAKDOWN:'', Frame shown_2030] in
     (case sector_growth df_2025 df_2030 of
        Inl e \<Rightarrow> (printed, Some e)
      | Inr growth \<Rightarrow>
          (printed @ Text ''SECTOR GROWTH (2025-2030):'' # map (\<lambda>(k, g). GrowthLine k g) growth,
           None)))))))"

definition analyze_sector_wise_consumption :: step where
  "analyze_sector_wise_consumption st =
     (case map_of (data st) ''sector_wise'' of
        None \<Rightarrow> (say [Unavailable ''Sector-wise data not available''] st, None)
      | Some df \<Rightarrow>
          (case sector_wise_consumption df of (printed, err) \<Rightarrow>
             (say (Text ''SECTOR-WISE CONSUMPTION ANALYSIS'' # printed) st, err)))"


section \<open>Charts\<close>

text \<open>
  A chart function reads its table, prepares the data and draws. \<open>draw\<close> is the common
  end: the prepared data or the exception of the preparation, then the drawing.
\<close>

definition draw :: "(chart \<Rightarrow> error option) \<Rightarrow> error + chart \<Rightarrow> step" where
  "draw render prepared st =
     (case prepared of
        Inl e \<Rightarrow> (st, Some e)
      | Inr c \<Rightarrow> (case render c of Some e \<Rightarrow> (st, Some e) | None \<Rightarrow> (say [Shown c] st, None)))"

definition demand_projection_chart :: "dataframe \<Rightarrow> error + chart" where
  "demand_projection_chart df =
     (case getcol df ''Year'' of
        Inl e \<Rightarrow> Inl e
      | Inr year \<Rightarrow>
     (case getcol df ''Demand_MU'' of
        Inl e \<Rightarrow> Inl e
      | Inr demand \<Rightarrow>
     (case getcol df ''Cost_Rs_per_unit'' of
        Inl e \<Rightarrow> Inl e
      | Inr cost \<Rightarrow> Inr (DemandProjectionChart year demand cost))))"

definition create_demand_projection_chart :: "(chart \<Rightarrow> error option) \<Rightarrow> step" where
  "create_demand_projection_chart render st =
     (case map_of (data st) ''projections'' of
        None \<Rightarrow> (say [Unavailable ''Projection data not available''] st, None)
      | Some df \<Rightarrow> draw render (demand_projection_chart df) st)"

text \<open>
  \<open>df.pivot(index='Year', columns='Month_Num', values='Demand_MU')\<close> raises ValueError
  when two rows have the same year and month number.
\<close>

definition seasonal_heatmap :: "dataframe \<Rightarrow> error + chart" where
  "seasonal_heatmap df =
     (case getcol df ''Year'' of
        Inl e \<Rightarrow> Inl e
      | Inr year \<Rightarrow>
     (case getcol df ''Month_Num'' of
        Inl e \<Rightarrow> Inl e
      | Inr month \<Rightarrow>
     (case getcol df ''Demand_MU'' of
        Inl e \<Rightarrow> Inl e
      | Inr demand \<Rightarrow>
          (if distinct (zip (cells year) (cells month))
           then Inr (SeasonalHeatmap year month demand)
           else Inl ValueError))))"

definition create_seasonal_heatmap :: "(chart \<Rightarrow> error option) \<Rightarrow> step" where
  "create_seasonal_heatmap render st =
     (case map_of (data st) ''monthly_detailed'' of
        None \<Rightarrow> (say [Unavailable ''Monthly detailed data not available''] st, None)
      | Some df \<Rightarrow> draw render (seasonal_heatmap df) st)"

definition sector_pie_chart :: "dataframe \<Rightarrow> error + chart" where
  "sector_pie_chart df =
     (case year_rows df 2025 of
        Inl e \<Rightarrow> Inl e
      | Inr df_2025 \<Rightarrow>
     (case getcol df_2025 ''Demand_MU'' of
        Inl e \<Rightarrow> Inl e
      | Inr demand \<Rightarrow>
     (case getcol df_2025 ''Sector'' of
        Inl e \<Rightarrow> Inl e
      | Inr sector \<Rightarrow> Inr (SectorPieChart demand sector))))"

definition create_sector_pie_chart :: "(chart \<Rightarrow> error option) \<Rightarrow> step" where
  "create_sector_pie_chart render st =
     (case map_of (data st) ''sector_wise'' of
        None \<Rightarrow> (say [Unavailable ''Sector-wise data not available''] st, None)
      | Some df \<Rightarrow> draw render (sector_pie_chart df) st)"

definition daily_load_profile :: "dataframe \<Rightarrow> error + chart" where
  "daily_load_profile df =
     (case weekday_avg df of
        Inl e \<Rightarrow> Inl e
      | Inr weekday \<Rightarrow>
     (case weekend_avg df of
        Inl e \<Rightarrow> Inl e
      | Inr weekend \<Rightarrow> Inr (DailyLoadProfile weekday weekend)))"

definition create_daily_load_profile :: "(chart \<Rightarrow> error option) \<Rightarrow> step" where
  "create_daily_load_profile render st =
     (case map_of (data st) ''daily_load'' of
        None \<Rightarrow> (say [Unavailable ''Daily load data not available''] st, None)
      | Some df \<Rightarrow> draw render (daily_load_profile df) st)"

definition infrastructure_dashboard :: "dataframe \<Rightarrow> error + chart" where
  "infrastructure_dashboard df =
     (case getcol df ''Year'' of
        Inl e \<Rightarrow> Inl e
      | Inr year \<Rightarrow>
     (case getcol df ''Generation_Capacity_MW'' of
        Inl e \<Rightarrow> Inl e
      | Inr capacity \<Rightarrow>
     (case getcol df ''Renewable_Capacity_MW'' of
        Inl e \<Rightarrow> Inl e
      | Inr renewable \<Rightarrow>
     (case getcol df ''Smart_Meters_Deployed'' of
        Inl e \<Rightarrow> Inl e
      | Inr meters \<Rightarrow>
     (case getcol df ''T_D_Losses_%'' of
        Inl e \<Rightarrow> Inl e
      | Inr losses \<Rightarrow> Inr (InfrastructureDashboard year capacity renewable meters losses))))))"

definition create_infrastructure_dashboard :: "(chart \<Rightarrow> error option) \<Rightarrow> step" where
  "create_infrastructure_dashboard render st =
     (case map_of (data st) ''infrastructure'' of
        None \<Rightarrow> (say [Unavailable ''Infrastructure data not available''] st, None)
      | Some df \<Rightarrow> draw render (infrastructure_dashboard df) st)"


section \<open>The report\<close>

text \<open>
  The analysis and chart methods of the class that \<open>generate_comprehensive_report\<close> calls.
\<close>

datatype analysis =
    AnalyzeHistoricalTrends
  | AnalyzeSeasonalPatterns
  | AnalyzeSectorWiseConsumption
  | CreateDemandProjectionChart
  | CreateSeasonalHeatmap
  | CreateSectorPieChart
  | CreateDailyLoadProfile
  | CreateInfrastructureDashboard

fun call :: "(chart \<Rightarrow> error option) \<Rightarrow> analysis \<Rightarrow> step" where
  "call render AnalyzeHistoricalTrends = analyze_historical_trends"
| "call render AnalyzeSeasonalPatterns = analyze_seasonal_patterns"
| "call render AnalyzeSectorWiseConsumption = analyze_sector_wise_consumption"
| "call render CreateDemandProjectionChart = create_demand_projection_chart render"
| "call render CreateSeasonalHeatmap = create_seasonal_heatmap render"
| "call render CreateSectorPieChart = create_sector_pie_chart render"
| "call render CreateDailyLoadProfile = create_daily_load_profile render"
| "call render CreateInfrastructureDashboard = create_infrastructure_dashboard render"



text \<open>A statement of the report's body: a \<open>print\<close> of a fixed line, or a method call.\<close>

datatype statement = Print string | Call analysis

fun exec :: "(chart \<Rightarrow> error option) \<Rightarrow> statement \<Rightarrow> step" where
  "exec render (Print line) st = (say [Text line] st, None)"
| "exec render (Call a) st = call render a st"

text \<open>Statements in sequence: an exception ends the sequence where it is raised.\<close>

fun run :: "(chart \<Rightarrow> error option) \<Rightarrow> statement list \<Rightarrow> step" where
  "run render [] st = (st, None)"
| "run render (s # rest) st =
     (case exec render s st of
        (st', None) \<Rightarrow> run render rest st'
      | (st', Some e) \<Rightarrow> (st', Some e))"

text \<open>
  The statements of \<open>generate_comprehensive_report\<close> after the data summary, in the
  order of the source. None of them is inside a \<open>try\<close>.
\<close>

definition report_body :: "statement list" where
  "report_body =
     [Print ''Analyzing Historical Trends...'', Call AnalyzeHistoricalTrends,
      Print ''Analyzing Seasonal Patterns...'', Call AnalyzeSeasonalPatterns,
      Print ''Analyzing Sector-wise Consumption...'', Call AnalyzeSectorWiseConsumption,
      Print ''Creating Visualizations...'',
      Print ''1. Demand Projection Chart:'', Call CreateDemandProjectionChart,
      Print ''2. Seasonal Heatmap:'', Call CreateSeasonalHeatmap,
      Print ''3. Sector Pie Chart:'', Call CreateSectorPieChart,
      Print ''4. Daily Load Profile:'', Call CreateDailyLoadProfile,
      Print ''5. Infrastructure Dashboard:'', Call CreateInfrastructureDashboard,
      Print ''Comprehensive analysis completed!'',
      Print ''All visualizations generated successfully!'']"

text \<open>
  The start of \<open>generate_comprehensive_report\<close>: the title, the loading (whose result is
  not looked at) and the data summary.
\<close>

definition report_start :: "(string \<Rightarrow> read_csv) \<Rightarrow> state \<Rightarrow> state" where
  "report_start fs st =
     display_data_summary
       (fst (load_all_data fs
          (say [Text ''COMPREHENSIVE CHENNAI ELECTRICITY ANALYTICS REPORT''] st)))"

definition generate_comprehensive_report :: "(string \<Rightarrow> read_csv) \<Rightarrow> (chart \<Rightarrow> error option) \<Rightarrow> step" where
  "generate_comprehensive_report fs render st = run render report_body (report_start fs st)"

definition init :: state where
  "init = \<lparr>data = [], out = [Text ''Chennai Electricity Analytics Program Initialized'']\<rparr>"

text \<open>
  \<open>main\<close>: one handler around the whole run. The result is the final state of the
  program.
\<close>

definition main :: "(string \<Rightarrow> read_csv) \<Rightarrow> (chart \<Rightarrow> error option) \<Rightarrow> state" where
  "main fs render =
     (case generate_comprehensive_report fs render init of
        (st, None) \<Rightarrow> st
      | (st, Some e) \<Rightarrow>
          say [MainFailed e,
               Text ''Please ensure all CSV files are in the same directory as this script.''] st)"


section \<open>Properties as the specification words them\<close>

fun is_fin :: "fval \<Rightarrow> bool" where
  "is_fin (Fin a) = True"
| "is_fin PInf = False"
| "is_fin NInf = False"
| "is_fin NaN = False"

text \<open>
  The growth of one period as the specification writes it:
  \<open>(value[i] - value[i-1]) / value[i-1] * 100\<close>.
\<close>

definition spec_growth :: "fval \<Rightarrow> fval \<Rightarrow> fval" where
  "spec_growth cur prev = fmul (fdiv (fsub cur prev) prev) (Fin 100)"

text \<open>
  The value that a label has in a series with unique labels, null when the series has
  no such label.
\<close>

definition value_or_null :: "series \<Rightarrow> cell \<Rightarrow> fval" where
  "value_or_null s k = (case map_of s k of None \<Rightarrow> NaN | Some v \<Rightarrow> v)"

text \<open>The sector growth of one key as the specification writes it: \<open>(value_b / value_a - 1) * 100\<close>.\<close>

definition spec_sector_growth :: "fval \<Rightarrow> fval \<Rightarrow> fval" where
  "spec_sector_growth value_a value_b = fmul (fsub (fdiv value_b value_a) (Fin 1)) (Fin 100)"

text \<open>
  One bucket of a load profile as the specification describes it: the mean of the value
  column over the rows of the partition (weekend or not) whose hour is the bucket's.
\<close>

definition spec_profile :: "bool \<Rightarrow> bool list \<Rightarrow> cell list \<Rightarrow> fval list \<Rightarrow> cell \<Rightarrow> fval" where
  "spec_profile weekend is_weekend hours vs k =
     mean (map (snd \<circ> snd)
            (filter (\<lambda>(w, h, v). w = weekend \<and> h = k) (zip is_weekend (zip hours vs))))"


section \<open>Sorting and grouping: basic facts\<close>

lemma set_insort_by [simp]: "set (insort_by le x xs) = insert x (set xs)"
  by (induction xs) auto

lemma distinct_insort_by [simp]: "distinct (insort_by le x xs) = (x \<notin> set xs \<and> distinct xs)"
  by (induction xs) auto

lemma set_sort_by [simp]: "set (sort_by le xs) = set xs"
  by (induction xs) (simp_all add: sort_by_def)

lemma distinct_sort_by [simp]: "distinct (sort_by le xs) = distinct xs"
  by (induction xs) (simp_all add: sort_by_def set_sort_by[unfolded sort_by_def])

lemma length_insort_by [simp]: "length (insort_by le x xs) = Suc (length xs)"
  by (induction xs) auto

lemma length_sort_by [simp]: "length (sort_by le xs) = length xs"
  by (induction xs) (simp_all add: sort_by_def)

lemma group_rows_cells:
  "inj C \<Longrightarrow>
   map snd (filter (\<lambda>(k', v). k' = k) (zip ks vs))
     = map snd (filter (\<lambda>(g', x). g' = C k) (zip (map C ks) vs))"
proof (induction ks arbitrary: vs)
  case Nil
  then show ?case by simp
next
  case (Cons a ks)
  then show ?case by (cases vs) (auto dest: injD)
qed

lemma group_mean_cells:
  "inj C \<Longrightarrow>
   group_mean ks vs k = mean (map snd (filter (\<lambda>(g', x). g' = C k) (zip (map C ks) vs)))"
  unfolding group_mean_def by (simp only: group_rows_cells[of C k ks vs])

lemma groupby_mean_groups:
  assumes k: "getcol df by = Inr kc"
    and v: "getcol df name = Inr (NumCol vs)"
  shows "\<exists>keys avgs.
           groupby_mean df by name = Inr (keys, avgs)
         \<and> distinct (cells keys)
         \<and> set (cells keys) = set (cells kc) - {Num NaN}
         \<and> avgs = map (\<lambda>g. mean (map snd (filter (\<lambda>(g', x). g' = g) (zip (cells kc) vs))))
                      (cells keys)"
proof (cases kc)
  case (StrCol ks)
  let ?gs = "sort_by (\<le>) (remdups ks)"
  have g: "groupby_mean df by name = Inr (StrCol ?gs, map (group_mean ks vs) ?gs)"
    by (simp add: groupby_mean_def k v StrCol Let_def)
  have d: "distinct (cells (StrCol ?gs))" by (simp add: distinct_map inj_on_def)
  have s: "set (cells (StrCol ?gs)) = set (cells kc) - {Num NaN}" by (auto simp: StrCol)
  have a: "map (group_mean ks vs) ?gs
      = map (\<lambda>g. mean (map snd (filter (\<lambda>(g', x). g' = g) (zip (cells kc) vs))))
          (cells (StrCol ?gs))"
    by (simp add: StrCol comp_def group_mean_cells[where C = Str] inj_def)
  from g d s a show ?thesis by blast
next
  case (NumCol ks)
  let ?gs = "sort_by fle (remdups (filter notna ks))"
  have g: "groupby_mean df by name = Inr (NumCol ?gs, map (group_mean ks vs) ?gs)"
    by (simp add: groupby_mean_def k v NumCol Let_def)
  have d: "distinct (cells (NumCol ?gs))" by (simp add: distinct_map inj_on_def)
  have s: "set (cells (NumCol ?gs)) = set (cells kc) - {Num NaN}"
    by (auto simp: NumCol notna_def)
  have a: "map (group_mean ks vs) ?gs
      = map (\<lambda>g. mean (map snd (filter (\<lambda>(g', x). g' = g) (zip (cells kc) vs))))
          (cells (NumCol ?gs))"
    by (simp add: NumCol comp_def group_mean_cells[where C = Num] inj_def)
  from g d s a show ?thesis by blast
qed


section \<open>Facts about the arithmetic and \<open>pct_change\<close>\<close>

lemma fdiv_NaN_right [simp]: "fdiv a NaN = NaN"
  by (cases a) simp_all

lemma fadd_NaN_right [simp]: "fadd a NaN = NaN"
  by (cases a) simp_all

lemma fmul_NaN_right [simp]: "fmul a NaN = NaN"
  by (cases a) simp_all

lemma length_ffill_from [simp]: "length (ffill_from l xs) = length xs"
  by (induction xs arbitrary: l) auto

lemma is_fin_notna: "is_fin v \<Longrightarrow> notna v"
  by (cases v) (simp_all add: notna_def)

lemma ffill_from_id: "list_all notna xs \<Longrightarrow> ffill_from l xs = xs"
  by (induction xs arbitrary: l) auto

lemma ffill_finite: "list_all is_fin xs \<Longrightarrow> ffill xs = xs"
  unfolding ffill_def by (rule ffill_from_id) (auto simp: list_all_iff is_fin_notna)

lemma pct_change_length: "length (pct_change xs) = length xs"
  by (cases "ffill xs") (auto simp: pct_change_def Let_def shift1_def ffill_def dest: arg_cong[where f=length])

lemma pct_change_first: "list_all is_fin xs \<Longrightarrow> xs \<noteq> [] \<Longrightarrow> pct_change xs ! 0 = NaN"
  by (cases xs) (auto simp: pct_change_def Let_def shift1_def ffill_finite fsub_def)

lemma pct_change_later:
  assumes "list_all is_fin xs" "0 < i" "i < length xs"
  shows "pct_change xs ! i = fsub (fdiv (xs ! i) (xs ! (i - 1))) (Fin 1)"
proof -
  from assms obtain j where j: "i = Suc j" by (cases i) auto
  have ne: "xs \<noteq> []" using assms by auto
  have "(NaN # butlast xs) ! i = xs ! j"
    using assms j by (simp add: nth_butlast)
  then show ?thesis
    using assms ne j by (simp add: pct_change_def Let_def shift1_def ffill_finite)
qed

lemma growth_step:
  "fmul (fsub (fdiv (Fin c) (Fin p)) (Fin 1)) (Fin 100) = spec_growth (Fin c) (Fin p)"
  by (auto simp: spec_growth_def fsub_def signed_inf_def field_simps)

lemma growth_step_notna:
  "\<not> (p = 0 \<and> c = 0) \<Longrightarrow> notna (fmul (fsub (fdiv (Fin c) (Fin p)) (Fin 1)) (Fin 100))"
  by (auto simp: fsub_def signed_inf_def notna_def)


section \<open>C1: period-over-period growth\<close>

text \<open>
  Claim C1, as amended. For a table whose value column holds \<open>N \<ge> 2\<close> finite numbers
  with no zero directly followed by another zero, the growth column of
  \<open>analyze_historical_trends\<close> has \<open>N\<close> entries, the first is null, exactly \<open>N - 1\<close>
  are not null, and every later entry \<open>i\<close> is not null and equals
  \<open>(value[i] - value[i-1]) / value[i-1] * 100\<close>.
\<close>

theorem growth_pct_rows:
  assumes col: "getcol df name = Inr (NumCol xs)"
    and fin: "list_all is_fin xs"
    and len: "2 \<le> length xs"
    and nz: "\<forall>i. Suc i < length xs \<longrightarrow> \<not> (xs ! i = Fin 0 \<and> xs ! Suc i = Fin 0)"
  shows "\<exists>g. growth_pct df name = Inr g \<and> length g = length xs \<and> g ! 0 = NaN
           \<and> length (filter notna g) = length xs - 1
           \<and> (\<forall>i. 0 < i \<and> i < length xs \<longrightarrow>
                  notna (g ! i) \<and> g ! i = spec_growth (xs ! i) (xs ! (i - 1)))"
proof -
  define g where "g = map (\<lambda>v. fmul v (Fin 100)) (pct_change xs)"
  have gp: "growth_pct df name = Inr g"
    by (simp add: growth_pct_def col g_def)
  have lg: "length g = length xs"
    by (simp add: g_def pct_change_length)
  have ne: "xs \<noteq> []" using len by auto
  have g0: "g ! 0 = NaN"
    using ne fin by (simp add: g_def pct_change_length pct_change_first)
  have later: "notna (g ! i) \<and> g ! i = spec_growth (xs ! i) (xs ! (i - 1))"
    if i: "0 < i" "i < length xs" for i
  proof -
    have "is_fin (xs ! i)" "is_fin (xs ! (i - 1))"
      using fin i by (simp_all add: list_all_length)
    then obtain c p where c: "xs ! i = Fin c" and p: "xs ! (i - 1) = Fin p"
      by (cases "xs ! i"; cases "xs ! (i - 1)") simp_all
    have nn: "\<not> (p = 0 \<and> c = 0)"
      using nz i c p by (cases i) auto
    have "g ! i = fmul (pct_change xs ! i) (Fin 100)"
      using i by (simp add: g_def pct_change_length)
    moreover have "pct_change xs ! i = fsub (fdiv (Fin c) (Fin p)) (Fin 1)"
      using pct_change_later[OF fin i] unfolding c p .
    ultimately have gi: "g ! i = fmul (fsub (fdiv (Fin c) (Fin p)) (Fin 1)) (Fin 100)"
      by (simp only:)
    show ?thesis
      unfolding c p gi by (rule conjI[OF growth_step_notna[OF nn] growth_step])
  qed
  have cnt: "length (filter notna g) = length xs - 1"
  proof -
    obtain a rest where ar: "g = a # rest"
      using lg ne by (cases g) auto
    have a: "a = NaN" using g0 ar by simp
    have "notna v" if "v \<in> set rest" for v
    proof -
      from that obtain j where j: "j < length rest" "v = rest ! j"
        by (auto simp: in_set_conv_nth)
      then have v: "v = g ! Suc j" by (simp add: ar)
      have "Suc j < length xs" using j lg ar by auto
      then have "notna (g ! Suc j)" using later[of "Suc j"] by blast
      then show ?thesis unfolding v .
    qed
    then have "filter notna rest = rest" by (simp add: filter_id_conv)
    then show ?thesis using ar a lg by (simp add: notna_def)
  qed
  show ?thesis using gp lg g0 later cnt by blast
qed

theorem growth_pct_rows_witness:
  "\<exists>g. growth_pct [(''Demand_MU'', NumCol [Fin 100, Fin 110, Fin 121])] ''Demand_MU'' = Inr g
       \<and> length g = 3 \<and> g ! 0 = NaN \<and> length (filter notna g) = 2
       \<and> g ! 1 = spec_growth (Fin 110) (Fin 100) \<and> g ! 2 = spec_growth (Fin 121) (Fin 110)"
proof -
  let ?df = "[(''Demand_MU'', NumCol [Fin 100, Fin 110, Fin 121])]"
  let ?xs = "[Fin 100, Fin 110, Fin 121]"
  have col: "getcol ?df ''Demand_MU'' = Inr (NumCol ?xs)" by (simp add: getcol_def)
  have fin: "list_all is_fin ?xs" by simp
  have len: "2 \<le> length ?xs" by simp
  have nz: "\<forall>i. Suc i < length ?xs \<longrightarrow> \<not> (?xs ! i = Fin 0 \<and> ?xs ! Suc i = Fin 0)"
    by (auto simp: nth_Cons split: nat.splits)
  from growth_pct_rows[OF col fin len nz] obtain g where
    g: "growth_pct ?df ''Demand_MU'' = Inr g" "length g = length ?xs" "g ! 0 = NaN"
       "length (filter notna g) = length ?xs - 1"
       "\<forall>i. 0 < i \<and> i < length ?xs \<longrightarrow> notna (g ! i) \<and> g ! i = spec_growth (?xs ! i) (?xs ! (i - 1))"
    by blast
  from g(5) have "g ! 1 = spec_growth (Fin 110) (Fin 100)" "g ! 2 = spec_growth (Fin 121) (Fin 110)"
    by (auto simp del: One_nat_def)
  with g show ?thesis by auto
qed

text \<open>
  The claim as stated fails on the two-row column \<open>0, 0\<close>: zero over zero is null, so
  no growth value is non-null where the claim promises one.
\<close>

theorem growth_pct_zeros_counterexample:
  "growth_pct [(''Demand_MU'', NumCol [Fin 0, Fin 0])] ''Demand_MU'' = Inr [NaN, NaN]
   \<and> length (filter notna [NaN, NaN]) \<noteq> length [Fin 0, Fin 0] - 1"
  by (simp add: growth_pct_def getcol_def pct_change_def ffill_def shift1_def notna_def fsub_def)

section \<open>C2 and C3: compound annual growth rate\<close>

lemma root4: "0 \<le> y \<Longrightarrow> (y ^ 4) powr (1/4) = (y::real)"
proof (cases "y = 0")
  case True
  then show ?thesis by simp
next
  case False
  assume "0 \<le> y"
  with False have pos: "0 < y" by simp
  have "(y ^ 4) powr (1/4) = (y powr 4) powr (1/4)"
    using pos by simp
  also have "\<dots> = y powr 1" by (simp add: powr_powr)
  finally show ?thesis using pos by simp
qed

lemma root4_pow: "0 \<le> x \<Longrightarrow> (x powr (1/4)) ^ 4 = (x::real)"
proof (cases "x = 0")
  case True
  then show ?thesis by simp
next
  case False
  assume "0 \<le> x"
  with False have pos: "0 < x" by simp
  have "(x powr (1/4)) ^ 4 = (x powr (1/4)) powr 4"
    by simp
  also have "\<dots> = x powr 1" by (simp add: powr_powr)
  finally show ?thesis using pos by simp
qed

lemma getcol_setcol_other:
  "name \<noteq> g \<Longrightarrow> getcol (setcol g c df) name = getcol df name"
  by (simp add: getcol_def setcol_def update_conv')

lemma cagr_numcol:
  "getcol df name = Inr (NumCol xs) \<Longrightarrow> xs \<noteq> [] \<Longrightarrow>
   cagr df name = Inr (fmul (fsub (fpow (fdiv (last xs) (hd xs)) (1/4)) (Fin 1)) (Fin 100))"
  by (simp add: cagr_def last_first_def)

text \<open>
  Claim C2, as amended. The growth rate that \<open>analyze_historical_trends\<close> prints for a
  column with a positive first value \<open>a\<close> and a non-negative last value \<open>b\<close> is
  \<open>((b / a) ** (1/4) - 1) * 100\<close>: the number of periods is the constant 4, not the
  number of rows, so that compounding the rate over four periods leads from \<open>a\<close> to
  \<open>b\<close>. The standalone program's market value rate has the same shape with the
  constant 5.
\<close>

theorem cagr_formula:
  assumes col: "getcol df name = Inr (NumCol xs)"
    and ne: "xs \<noteq> []"
    and first: "hd xs = Fin a"
    and lst: "last xs = Fin b"
    and a: "0 < a"
    and b: "0 \<le> b"
  shows "cagr df name = Inr (Fin (((b / a) powr (1/4) - 1) * 100))
         \<and> a * (1 + (((b / a) powr (1/4) - 1) * 100) / 100) ^ 4 = b
         \<and> (name = ''Market_Value_Cr'' \<longrightarrow>
              market_value_cagr df = Inr (Fin (((b / a) powr (1/5) - 1) * 100)))"
proof -
  have q: "0 \<le> b / a" using a b by simp
  have 1: "cagr df name = Inr (Fin (((b / a) powr (1/4) - 1) * 100))"
    using a q by (simp add: cagr_numcol[OF col ne] first lst fsub_def)
  have "1 + (((b / a) powr (1/4) - 1) * 100) / 100 = (b / a) powr (1/4)"
    by (simp add: diff_divide_distrib)
  then have "(1 + (((b / a) powr (1/4) - 1) * 100) / 100) ^ 4 = ((b / a) powr (1/4)) ^ 4"
    by (simp only:)
  also have "\<dots> = b / a" by (rule root4_pow[OF q])
  finally have 2: "a * (1 + (((b / a) powr (1/4) - 1) * 100) / 100) ^ 4 = b"
    using a by simp
  have 3: "market_value_cagr df = Inr (Fin (((b / a) powr (1/5) - 1) * 100))"
    if "name = ''Market_Value_Cr''"
    using that col ne a q by (simp add: market_value_cagr_def last_first_def first lst fsub_def)
  show ?thesis using 1 2 3 by blast
qed

theorem cagr_formula_witness:
  "cagr [(''Demand_MU'', NumCol [Fin 10000, Fin 12000, Fin 14641])] ''Demand_MU'' = Inr (Fin 10)"
proof -
  let ?xs = "[Fin 10000, Fin 12000, Fin 14641]"
  let ?df = "[(''Demand_MU'', NumCol ?xs)]"
  have col: "getcol ?df ''Demand_MU'' = Inr (NumCol ?xs)" by (simp add: getcol_def)
  have ne: "?xs \<noteq> []" by simp
  have first: "hd ?xs = Fin 10000" by simp
  have lst: "last ?xs = Fin 14641" by simp
  have r: "(14641 / 10000 :: real) powr (1/4) = 11 / 10"
    using root4[of "11 / 10"] by (simp add: power4_eq_xxxx)
  from cagr_formula[OF col ne first lst] show ?thesis
    by (simp add: r)
qed

text \<open>
  The claim as stated fails on the specification's own example: for the three demand
  values 100, 110, 121 the code takes the fourth root of 1.21, which is below 5 percent
  and not the 10 percent of two periods.
\<close>

theorem cagr_fixed_exponent_counterexample:
  "cagr [(''Demand_MU'', NumCol [Fin 100, Fin 110, Fin 121])] ''Demand_MU''
     = Inr (Fin (((121 / 100) powr (1/4) - 1) * 100))
   \<and> ((121 / 100) powr (1/4) - 1) * 100 < (5::real)"
proof -
  have "(121 / 100 :: real) powr (1/4) < ((105 / 100) ^ 4) powr (1/4)"
    by (rule powr_less_mono2) (simp_all add: power4_eq_xxxx)
  also have "\<dots> = 105 / 100" by (rule root4) simp
  finally have "((121 / 100) powr (1/4) - 1) * 100 < (5::real)" by simp
  moreover have "cagr [(''Demand_MU'', NumCol [Fin 100, Fin 110, Fin 121])] ''Demand_MU''
     = Inr (Fin (((121 / 100) powr (1/4) - 1) * 100))"
    by (simp add: cagr_def getcol_def last_first_def fsub_def)
  ultimately show ?thesis by blast
qed

lemma cagr_zero:
  assumes col: "getcol df name = Inr (NumCol xs)"
    and ne: "xs \<noteq> []"
    and first: "hd xs = Fin 0"
    and lst: "last xs = Fin b"
  shows "cagr df name = Inr (if b = 0 then NaN else PInf)"
  by (simp add: cagr_numcol[OF col ne] first lst fsub_def signed_inf_def)

lemma getcol_setcol_same: "getcol (setcol g c df) g = Inr c"
  by (simp add: getcol_def setcol_def update_conv')

lemma growth_pct_setcol:
  "name \<noteq> g \<Longrightarrow> growth_pct (setcol g c df) name = growth_pct df name"
  by (simp add: growth_pct_def getcol_setcol_other)

lemma cagr_setcol:
  "name \<noteq> g \<Longrightarrow> cagr (setcol g c df) name = cagr df name"
  by (simp add: cagr_def getcol_setcol_other)

lemma peak_growth_setcol:
  "g \<noteq> ''Peak_Demand_MW'' \<Longrightarrow> peak_growth (setcol g c df) = peak_growth df"
  by (simp add: peak_growth_def getcol_setcol_other)

lemma historical_trends_success:
  assumes "historical_trends df = (df', printed, None)"
  shows "\<exists>g1 g2 dc cc pk.
           growth_pct df ''Demand_MU'' = Inr g1 \<and> growth_pct df ''Cost_Rs_per_unit'' = Inr g2
         \<and> cagr df ''Demand_MU'' = Inr dc \<and> cagr df ''Cost_Rs_per_unit'' = Inr cc
         \<and> peak_growth df = Inr pk
         \<and> df' = setcol ''Cost_Growth_%'' (NumCol g2) (setcol ''Demand_Growth_%'' (NumCol g1) df)
         \<and> printed = [Metric ''Demand CAGR (2020-2024)'' dc, Metric ''Cost CAGR (2020-2024)'' cc,
                      Metric ''Peak Demand Growth'' pk]"
  using assms
  by (auto simp: historical_trends_def growth_pct_setcol cagr_setcol peak_growth_setcol Let_def
      split: sum.splits)

lemma historical_trends_run:
  assumes "growth_pct df ''Demand_MU'' = Inr g1" "growth_pct df ''Cost_Rs_per_unit'' = Inr g2"
    "cagr df ''Demand_MU'' = Inr dc" "cagr df ''Cost_Rs_per_unit'' = Inr cc"
    "peak_growth df = Inr pk"
  shows "historical_trends df =
    (setcol ''Cost_Growth_%'' (NumCol g2) (setcol ''Demand_Growth_%'' (NumCol g1) df),
     [Metric ''Demand CAGR (2020-2024)'' dc, Metric ''Cost CAGR (2020-2024)'' cc,
      Metric ''Peak Demand Growth'' pk], None)"
  using assms
  by (simp add: historical_trends_def growth_pct_setcol cagr_setcol peak_growth_setcol Let_def)

text \<open>
  Claim C3, as amended. When the first value of the demand column is zero the growth
  rate raises nothing: it is the positive infinity when the last value is not zero and
  NaN when it is, the metric is printed with that value, and so are the metrics after
  it. The number of periods is the literal 4 and never zero.
\<close>

theorem cagr_zero_first_value:
  assumes d: "getcol df ''Demand_MU'' = Inr (NumCol xs)"
    and c: "getcol df ''Cost_Rs_per_unit'' = Inr (NumCol ys)"
    and p: "getcol df ''Peak_Demand_MW'' = Inr (NumCol zs)"
    and ne: "xs \<noteq> []" "ys \<noteq> []" "zs \<noteq> []"
    and first: "hd xs = Fin 0"
    and lst: "last xs = Fin b"
  shows "cagr df ''Demand_MU'' = Inr (if b = 0 then NaN else PInf)
       \<and> (\<exists>df' cost peak. historical_trends df =
            (df', [Metric ''Demand CAGR (2020-2024)'' (if b = 0 then NaN else PInf),
                   Metric ''Cost CAGR (2020-2024)'' cost,
                   Metric ''Peak Demand Growth'' peak], None))"
proof -
  have 1: "cagr df ''Demand_MU'' = Inr (if b = 0 then NaN else PInf)"
    by (rule cagr_zero[OF d ne(1) first lst])
  have g1: "\<exists>g. growth_pct df ''Demand_MU'' = Inr g" by (simp add: growth_pct_def d)
  have g2: "\<exists>g. growth_pct df ''Cost_Rs_per_unit'' = Inr g" by (simp add: growth_pct_def c)
  have cc: "\<exists>v. cagr df ''Cost_Rs_per_unit'' = Inr v" by (simp add: cagr_numcol[OF c ne(2)])
  have pk: "\<exists>v. peak_growth df = Inr v" using ne(3) by (simp add: peak_growth_def p last_first_def)
  from g1 g2 cc pk 1 show ?thesis
    by (auto simp: historical_trends_run simp del: fmul.simps fdiv.simps)
qed

theorem cagr_zero_first_value_witness:
  "cagr [(''Demand_MU'', NumCol [Fin 0, Fin 0]), (''Cost_Rs_per_unit'', NumCol [Fin 4, Fin 4]),
         (''Peak_Demand_MW'', NumCol [Fin 3000, Fin 3100])] ''Demand_MU'' = Inr NaN"
proof -
  let ?df = "[(''Demand_MU'', NumCol [Fin 0, Fin 0]), (''Cost_Rs_per_unit'', NumCol [Fin 4, Fin 4]),
         (''Peak_Demand_MW'', NumCol [Fin 3000, Fin 3100])]"
  have d: "getcol ?df ''Demand_MU'' = Inr (NumCol [Fin 0, Fin 0])" by (simp add: getcol_def)
  have c: "getcol ?df ''Cost_Rs_per_unit'' = Inr (NumCol [Fin 4, Fin 4])" by (simp add: getcol_def)
  have p: "getcol ?df ''Peak_Demand_MW'' = Inr (NumCol [Fin 3000, Fin 3100])" by (simp add: getcol_def)
  from cagr_zero_first_value[OF d c p, of 0] show ?thesis by simp
qed

text \<open>
  The claim as stated fails on a demand column 0, 5: the rate is a value, the infinity,
  and the report prints it with the other two metrics.
\<close>

theorem cagr_zero_division_counterexample:
  "cagr [(''Demand_MU'', NumCol [Fin 0, Fin 5]), (''Cost_Rs_per_unit'', NumCol [Fin 4, Fin 4]),
         (''Peak_Demand_MW'', NumCol [Fin 3000, Fin 3100])] ''Demand_MU'' = Inr PInf
   \<and> snd (historical_trends
        [(''Demand_MU'', NumCol [Fin 0, Fin 5]), (''Cost_Rs_per_unit'', NumCol [Fin 4, Fin 4]),
         (''Peak_Demand_MW'', NumCol [Fin 3000, Fin 3100])])
     = ([Metric ''Demand CAGR (2020-2024)'' PInf, Metric ''Cost CAGR (2020-2024)'' (Fin 0),
         Metric ''Peak Demand Growth'' (Fin 100)], None)"
  by (simp add: historical_trends_def growth_pct_def cagr_def peak_growth_def getcol_def
      setcol_def last_first_def fsub_def signed_inf_def Let_def)

section \<open>C4: seasonal index\<close>

lemma fadd_not_fin: "\<not> is_fin a \<Longrightarrow> \<not> is_fin (fadd a x)"
  by (cases a; cases x) simp_all

lemma foldl_fadd_not_fin: "\<not> is_fin a \<Longrightarrow> \<not> is_fin (foldl fadd a ws)"
  by (induction ws arbitrary: a) (simp_all add: fadd_not_fin)

lemma foldl_fadd_fin:
  "foldl fadd (Fin a) ws = Fin s \<Longrightarrow> \<exists>rs. ws = map Fin rs \<and> s = a + sum_list rs"
proof (induction ws arbitrary: a)
  case Nil
  then show ?case by simp
next
  case (Cons x ws)
  have "is_fin (fadd (Fin a) x)"
    using Cons.prems foldl_fadd_not_fin[of "fadd (Fin a) x" ws] by auto
  then obtain y where y: "x = Fin y" by (cases x) simp_all
  from Cons.prems have "foldl fadd (Fin (a + y)) ws = Fin s" by (simp add: y)
  from Cons.IH[OF this] obtain rs where "ws = map Fin rs" "s = a + y + sum_list rs" by blast
  then have "x # ws = map Fin (y # rs) \<and> s = a + sum_list (y # rs)" by (simp add: y)
  then show ?case by (rule exI[where x = "y # rs"])
qed

lemma foldl_fadd_map_Fin: "foldl fadd (Fin a) (map Fin rs) = Fin (a + sum_list rs)"
  by (induction rs arbitrary: a) (simp_all add: add.assoc)

lemma fsum_map_Fin: "fsum (map Fin rs) = Fin (sum_list rs)"
  by (simp add: fsum_def foldl_fadd_map_Fin)

lemma mean_fin:
  assumes "mean vs = Fin m"
  shows "\<exists>rs. filter notna vs = map Fin rs \<and> rs \<noteq> [] \<and> m = sum_list rs / real (length rs)"
proof -
  let ?ws = "filter notna vs"
  from assms have ne: "?ws \<noteq> []" by (auto simp: mean_def Let_def split: if_splits)
  with assms have d: "fdiv (fsum ?ws) (Fin (real (length ?ws))) = Fin m"
    by (simp add: mean_def Let_def)
  have pos: "real (length ?ws) \<noteq> 0" using ne by simp
  from d pos obtain s where s: "fsum ?ws = Fin s" and m: "m = s / real (length ?ws)"
    by (cases "fsum ?ws") (auto simp: signed_inf_def split: if_splits)
  from s obtain rs where rs: "?ws = map Fin rs" "s = sum_list rs"
    unfolding fsum_def using foldl_fadd_fin[of 0 ?ws s] by auto
  from rs(1) have len: "length ?ws = length rs" by (metis length_map)
  from rs(1) ne have "rs \<noteq> []" by auto
  with rs m len show ?thesis by auto
qed

lemma notna_fdiv_fin: "m \<noteq> 0 \<Longrightarrow> notna (fdiv a (Fin m)) = notna a"
  by (cases a) (simp_all add: notna_def signed_inf_def)

lemma seasonal_index_mean:
  assumes m: "mean avgs = Fin m" and nz: "m \<noteq> 0"
  shows "mean (seasonal_index avgs) = Fin 1"
proof -
  from mean_fin[OF m] obtain rs where rs: "filter notna avgs = map Fin rs" "rs \<noteq> []"
    "m = sum_list rs / real (length rs)" by blast
  have "filter notna (seasonal_index avgs)
      = map (\<lambda>a. fdiv a (Fin m)) (filter notna avgs)"
    by (simp add: seasonal_index_def m filter_map comp_def notna_fdiv_fin[OF nz])
  also have "\<dots> = map Fin (map (\<lambda>r. r / m) rs)"
    using nz by (simp add: rs(1) comp_def)
  finally have f: "filter notna (seasonal_index avgs) = map Fin (map (\<lambda>r. r / m) rs)" .
  have s: "sum_list (map (\<lambda>r. r / m) rs) = sum_list rs / m"
    by (induction rs) (simp_all add: add_divide_distrib)
  have len: "real (length rs) \<noteq> 0" using rs(2) by simp
  have sm: "sum_list rs = m * real (length rs)" using rs(3) len by (simp add: field_simps)
  have fs: "fsum (map Fin (map (\<lambda>r. r / m) rs)) = Fin (sum_list rs / m)"
    by (simp only: fsum_map_Fin s)
  have fne: "map Fin (map (\<lambda>r. r / m) rs) \<noteq> []" using rs(2) by simp
  have fl: "length (map Fin (map (\<lambda>r. r / m) rs)) = length rs" by simp
  have "mean (seasonal_index avgs) = fdiv (Fin (sum_list rs / m)) (Fin (real (length rs)))"
    unfolding mean_def Let_def f using fne by (simp only: fs fl if_False)
  also have "\<dots> = Fin 1" using len nz by (simp add: sm)
  finally show ?thesis .
qed

lemma mean_map_Fin:
  assumes "rs \<noteq> []"
  shows "mean (map Fin rs) = Fin (sum_list rs / real (length rs))"
proof -
  have f: "filter notna (map Fin rs) = map Fin rs" by (induction rs) (simp_all add: notna_def)
  have n: "map Fin rs \<noteq> []" using assms by simp
  have l: "real (length rs) \<noteq> 0" using assms by simp
  show ?thesis
    unfolding mean_def Let_def f using n l by (simp add: fsum_map_Fin)
qed

lemma index_mean_real:
  assumes "0 < sum_list rs"
  shows "sum_list (map (\<lambda>a. a / (sum_list rs / real (length rs))) rs) / real (length rs)
           = (1::real)"
proof -
  have ne: "rs \<noteq> []" using assms by auto
  then have l: "0 < real (length rs)" by simp
  have s: "sum_list (map (\<lambda>a. a / m) rs) = sum_list rs / m" for m :: real
    by (induction rs) (simp_all add: add_divide_distrib)
  show ?thesis unfolding s using assms l by (simp add: field_simps)
qed

text \<open>
  Claim C4. For a table with a month column and a numeric demand column,
  \<open>analyze_seasonal_patterns\<close> computes one average per distinct month (the mean of
  the demand over the rows of that month) and one seasonal index per month, the average
  divided by the mean of the averages. Whenever that mean is a positive number, the
  arithmetic mean of the seasonal index values is 1; for averages that are all numbers
  \<open>rs\<close> with a positive sum, the index values are \<open>a / (sum rs / length rs)\<close> and their
  sum divided by their number is 1.
\<close>

theorem seasonal_index_mean_one:
  assumes k: "getcol df ''Month'' = Inr kc"
    and v: "getcol df ''Demand_MU'' = Inr (NumCol vs)"
  shows "\<exists>months avgs idx.
           groupby_mean df ''Month'' ''Demand_MU'' = Inr (months, avgs)
         \<and> monthly_avg df = Inr [(''Month'', months), (''Demand_MU'', NumCol avgs),
                                 (''Seasonal_Index'', NumCol idx)]
         \<and> distinct (cells months)
         \<and> set (cells months) = set (cells kc) - {Num NaN}
         \<and> avgs = map (\<lambda>g. mean (map snd (filter (\<lambda>(g', x). g' = g) (zip (cells kc) vs))))
                      (cells months)
         \<and> idx = map (\<lambda>a. fdiv a (mean avgs)) avgs
         \<and> (\<forall>m. mean avgs = Fin m \<and> 0 < m \<longrightarrow> mean idx = Fin 1)
         \<and> (\<forall>rs. avgs = map Fin rs \<and> 0 < sum_list rs \<longrightarrow>
                idx = map (\<lambda>a. Fin (a / (sum_list rs / real (length rs)))) rs
              \<and> sum_list (map (\<lambda>a. a / (sum_list rs / real (length rs))) rs)
                  / real (length rs) = 1)"
proof -
  from groupby_mean_groups[OF k v] obtain months avgs where
    g: "groupby_mean df ''Month'' ''Demand_MU'' = Inr (months, avgs)"
    and d: "distinct (cells months)"
    and s: "set (cells months) = set (cells kc) - {Num NaN}"
    and a: "avgs = map (\<lambda>g. mean (map snd (filter (\<lambda>(g', x). g' = g) (zip (cells kc) vs))))
                      (cells months)"
    by blast
  define idx where "idx = map (\<lambda>a. fdiv a (mean avgs)) avgs"
  have i: "seasonal_index avgs = idx" by (simp add: seasonal_index_def idx_def)
  have 1: "monthly_avg df = Inr [(''Month'', months), (''Demand_MU'', NumCol avgs),
                                 (''Seasonal_Index'', NumCol idx)]"
    by (simp add: monthly_avg_def g setcol_def i)
  have 3: "mean idx = Fin 1" if "mean avgs = Fin m \<and> 0 < m" for m
    using that seasonal_index_mean[of avgs m] by (simp add: i)
  have 4: "idx = map (\<lambda>a. Fin (a / (sum_list rs / real (length rs)))) rs
         \<and> sum_list (map (\<lambda>a. a / (sum_list rs / real (length rs))) rs) / real (length rs) = 1"
    if h: "avgs = map Fin rs \<and> 0 < sum_list rs" for rs
  proof -
    from h have ne: "rs \<noteq> []" by auto
    then have l: "0 < real (length rs)" by simp
    have m: "mean avgs = Fin (sum_list rs / real (length rs))"
      using h mean_map_Fin[OF ne] by simp
    have nz: "sum_list rs / real (length rs) \<noteq> 0" using h l by simp
    have "idx = map (\<lambda>a. Fin (a / (sum_list rs / real (length rs)))) rs"
      unfolding idx_def m using h nz by (simp add: comp_def)
    moreover from h have "sum_list (map (\<lambda>a. a / (sum_list rs / real (length rs))) rs)
        / real (length rs) = 1"
      by (simp only: index_mean_real)
    ultimately show ?thesis by (rule conjI)
  qed
  have 2: "idx = map (\<lambda>a. fdiv a (mean avgs)) avgs" by (rule idx_def)
  from g 1 d s a 2 3 4 show ?thesis by blast
qed


theorem seasonal_index_mean_one_witness:
  "monthly_avg [(''Month'', StrCol [''Jan'', ''Feb'', ''Jan'', ''Mar'']),
                (''Demand_MU'', NumCol [Fin 1, Fin 2, Fin 3, Fin 6])]
     = Inr [(''Month'', StrCol [''Feb'', ''Jan'', ''Mar'']),
            (''Demand_MU'', NumCol [Fin 2, Fin 2, Fin 6]),
            (''Seasonal_Index'', NumCol [Fin (3 / 5), Fin (3 / 5), Fin (9 / 5)])]
   \<and> mean [Fin (3 / 5), Fin (3 / 5), Fin (9 / 5)] = Fin 1"
proof -
  let ?df = "[(''Month'', StrCol [''Jan'', ''Feb'', ''Jan'', ''Mar'']),
              (''Demand_MU'', NumCol [Fin 1, Fin 2, Fin 3, Fin 6])]"
  have k: "getcol ?df ''Month'' = Inr (StrCol [''Jan'', ''Feb'', ''Jan'', ''Mar''])"
    by (simp add: getcol_def)
  have v: "getcol ?df ''Demand_MU'' = Inr (NumCol [Fin 1, Fin 2, Fin 3, Fin 6])"
    by (simp add: getcol_def)
  have g: "groupby_mean ?df ''Month'' ''Demand_MU''
      = Inr (StrCol [''Feb'', ''Jan'', ''Mar''], [Fin 2, Fin 2, Fin 6])"
    by code_simp
  have m: "mean [Fin 2, Fin 2, Fin 6] = Fin (10 / 3)"
    by (simp add: mean_def fsum_def notna_def Let_def)
  from seasonal_index_mean_one[OF k v] obtain months avgs idx where
    r: "groupby_mean ?df ''Month'' ''Demand_MU'' = Inr (months, avgs)"
       "monthly_avg ?df = Inr [(''Month'', months), (''Demand_MU'', NumCol avgs),
                               (''Seasonal_Index'', NumCol idx)]"
       "\<forall>m. mean avgs = Fin m \<and> 0 < m \<longrightarrow> mean idx = Fin 1"
       "\<forall>rs. avgs = map Fin rs \<and> 0 < sum_list rs \<longrightarrow>
              idx = map (\<lambda>a. Fin (a / (sum_list rs / real (length rs)))) rs
            \<and> sum_list (map (\<lambda>a. a / (sum_list rs / real (length rs))) rs)
                / real (length rs) = 1"
    by blast
  from r(1) g have e: "months = StrCol [''Feb'', ''Jan'', ''Mar'']" "avgs = [Fin 2, Fin 2, Fin 6]"
    by simp_all
  have "avgs = map Fin [2, 2, 6] \<and> (0::real) < sum_list [2, 2, 6]" unfolding e by simp
  with r(4) have "idx = map (\<lambda>a. Fin (a / (sum_list [2, 2, 6] / real (length [2, 2, 6::real]))))
                         [2, 2, 6]"
    by blast
  then have i: "idx = [Fin (3 / 5), Fin (3 / 5), Fin (9 / 5)]" by simp
  have "mean avgs = Fin (10 / 3) \<and> (0::real) < 10 / 3" using m unfolding e by simp
  with r(3) have "mean idx = Fin 1" by blast
  with r(2) show ?thesis unfolding e i by simp
qed

section \<open>C5: sector growth\<close>

lemma filter_absent_key: "k \<notin> fst ` set s \<Longrightarrow> filter (\<lambda>(k', v). k' = k) s = []"
  by (induction s) auto

lemma values_at_unique:
  "distinct (map fst s) \<Longrightarrow> values_at s k = [value_or_null s k]"
proof (induction s)
  case Nil
  then show ?case by (simp add: values_at_def value_or_null_def)
next
  case (Cons p s)
  obtain k' v where p: "p = (k', v)" by (cases p)
  show ?case
  proof (cases "k' = k")
    case True
    with Cons.prems p have "k \<notin> fst ` set s" by auto
    then show ?thesis
      using True p by (simp add: values_at_def value_or_null_def filter_absent_key)
  next
    case False
    with Cons p show ?thesis by (auto simp: values_at_def value_or_null_def Let_def)
  qed
qed

lemma rebuild_unique:
  "distinct (map fst s) \<Longrightarrow> map (\<lambda>k. (k, value_or_null s k)) (map fst s) = s"
proof (induction s)
  case Nil
  then show ?case by simp
next
  case (Cons p s)
  obtain k v where p: "p = (k, v)" by (cases p)
  from Cons.prems p have nk: "k \<notin> fst ` set s" and d: "distinct (map fst s)" by auto
  have "map (\<lambda>k'. (k', value_or_null (p # s) k')) (map fst s)
      = map (\<lambda>k'. (k', value_or_null s k')) (map fst s)"
    using nk by (intro map_cong) (auto simp: value_or_null_def p)
  then have e: "map (\<lambda>k'. (k', value_or_null (p # s) k')) (map fst s) = s"
    using Cons.IH[OF d] by (simp only:)
  have h: "(k, value_or_null (p # s) k) = p" by (simp add: p value_or_null_def)
  have "map fst (p # s) = k # map fst s" by (simp add: p)
  then show ?case by (simp only: list.map e h)
qed

lemma map2_same_keys:
  "map2 f (map g ks) (map h ks) = map (\<lambda>k. f (g k) (h k)) ks"
  by (induction ks) simp_all

lemma series_div_unique:
  assumes dl: "distinct (map fst left)" and dr: "distinct (map fst right)"
  shows "\<exists>ks. distinct ks \<and> set ks = set (map fst left) \<union> set (map fst right)
           \<and> series_div left right
               = map (\<lambda>k. (k, fdiv (value_or_null left k) (value_or_null right k))) ks"
proof (cases "map fst left = map fst right")
  case True
  let ?ks = "map fst left"
  have l: "left = map (\<lambda>k. (k, value_or_null left k)) ?ks"
    using rebuild_unique[OF dl] by simp
  have r: "right = map (\<lambda>k. (k, value_or_null right k)) ?ks"
    using rebuild_unique[OF dr] True by simp
  have "series_div left right = map2 (\<lambda>(k, a) (_, b). (k, fdiv a b)) left right"
    using True by (simp add: series_div_def)
  also have "\<dots> = map2 (\<lambda>(k, a) (_, b). (k, fdiv a b))
        (map (\<lambda>k. (k, value_or_null left k)) ?ks) (map (\<lambda>k. (k, value_or_null right k)) ?ks)"
    using l r by simp
  also have "\<dots> = map (\<lambda>k. (k, fdiv (value_or_null left k) (value_or_null right k))) ?ks"
    by (simp only: map2_same_keys split_conv)
  finally have e: "series_div left right
      = map (\<lambda>k. (k, fdiv (value_or_null left k) (value_or_null right k))) ?ks" .
  have u: "set ?ks = set (map fst left) \<union> set (map fst right)" using True by simp
  from dl u e show ?thesis by (intro exI[where x = "?ks"] conjI)
next
  case False
  let ?labels = "remdups (map fst left @ map fst right)"
  let ?ks = "if left = [] \<or> right = [] then ?labels else sort_by cell_le ?labels"
  have "series_div left right
      = concat (map (\<lambda>k. concat (map (\<lambda>a. map (\<lambda>b. (k, fdiv a b)) (values_at right k))
                                          (values_at left k))) ?ks)"
    using False by (simp add: series_div_def Let_def)
  also have "\<dots> = concat (map (\<lambda>k. [(k, fdiv (value_or_null left k) (value_or_null right k))]) ?ks)"
    by (simp add: values_at_unique[OF dl] values_at_unique[OF dr] del: fdiv.simps)
  also have "\<dots> = map (\<lambda>k. (k, fdiv (value_or_null left k) (value_or_null right k))) ?ks"
    by (induction ?ks) simp_all
  finally have "series_div left right
      = map (\<lambda>k. (k, fdiv (value_or_null left k) (value_or_null right k))) ?ks" .
  moreover have "distinct ?ks" by simp
  moreover have "set ?ks = set (map fst left) \<union> set (map fst right)" by simp
  ultimately show ?thesis by blast
qed

lemma map_of_keyed:
  "map_of (map (\<lambda>k. (k, f k)) ks) k = (if k \<in> set ks then Some (f k) else None)"
  by (induction ks) auto

lemma value_or_null_Some: "map_of s k = Some v \<Longrightarrow> value_or_null s k = v"
  by (simp add: value_or_null_def)

lemma value_or_null_absent: "k \<notin> set (map fst s) \<Longrightarrow> value_or_null s k = NaN"
proof -
  assume "k \<notin> set (map fst s)"
  then have "map_of s k = None" by (simp add: map_of_eq_None_iff)
  then show ?thesis by (simp add: value_or_null_def)
qed

lemma spec_sector_growth_null [simp]:
  "spec_sector_growth NaN b = NaN" "spec_sector_growth a NaN = NaN"
  by (simp_all add: spec_sector_growth_def fsub_def)

text \<open>
  Claim C5, as amended. For two period tables with unique sector keys, the sector
  growth has exactly one entry for each key present in either period: the value
  \<open>(value_b / value_a - 1) * 100\<close> for a key of both periods, and the null value for a
  key of only one period. Such a key is not excluded: whenever the two tables are the
  2025 and 2030 rows of the loaded sector table, \<open>analyze_sector_wise_consumption\<close>
  prints the two breakdowns and then one growth line for every entry, the null ones
  included, and nothing else: no warning is reported.
\<close>

theorem sector_growth_keys:
  assumes s30: "indexed df_2030 ''Sector'' ''Demand_MU'' = Inr s30"
    and s25: "indexed df_2025 ''Sector'' ''Demand_MU'' = Inr s25"
    and d30: "distinct (map fst s30)"
    and d25: "distinct (map fst s25)"
  shows "\<exists>g. sector_growth df_2025 df_2030 = Inr g
           \<and> distinct (map fst g)
           \<and> set (map fst g) = set (map fst s30) \<union> set (map fst s25)
           \<and> (\<forall>k a b. map_of s25 k = Some a \<and> map_of s30 k = Some b \<longrightarrow>
                 map_of g k = Some (spec_sector_growth a b))
           \<and> (\<forall>k. (k \<in> set (map fst s30)) \<noteq> (k \<in> set (map fst s25)) \<longrightarrow>
                 map_of g k = Some NaN)
           \<and> (\<forall>st df shown_2025 shown_2030.
                 map_of (data st) ''sector_wise'' = Some df
               \<and> year_rows df 2025 = Inr df_2025 \<and> year_rows df 2030 = Inr df_2030
               \<and> select sector_columns df_2025 = Inr shown_2025
               \<and> select sector_columns df_2030 = Inr shown_2030 \<longrightarrow>
                 analyze_sector_wise_consumption st
                   = (say ([Text ''SECTOR-WISE CONSUMPTION ANALYSIS'',
                            Text ''2025 SECTOR BREAKDOWN:'', Frame shown_2025,
                            Text ''2030 PROJECTED SECTOR BREAKDOWN:'', Frame shown_2030,
                            Text ''SECTOR GROWTH (2025-2030):'']
                           @ map (\<lambda>(k, v). GrowthLine k v) g) st, None))"
proof -
  from series_div_unique[OF d30 d25] obtain ks where ks: "distinct ks"
    "set ks = set (map fst s30) \<union> set (map fst s25)"
    "series_div s30 s25 = map (\<lambda>k. (k, fdiv (value_or_null s30 k) (value_or_null s25 k))) ks"
    by blast
  define G where "G k = spec_sector_growth (value_or_null s25 k) (value_or_null s30 k)" for k
  define g where "g = map (\<lambda>k. (k, G k)) ks"
  have 1: "sector_growth df_2025 df_2030 = Inr g"
    by (simp add: sector_growth_def s30 s25 ks(3) g_def G_def spec_sector_growth_def comp_def
        del: fdiv.simps fmul.simps)
  have keys: "map fst g = ks" by (simp add: g_def comp_def)
  have m: "map_of g k = (if k \<in> set ks then Some (G k) else None)" for k
    unfolding g_def by (rule map_of_keyed)
  have 4: "map_of g k = Some (spec_sector_growth a b)"
    if "map_of s25 k = Some a \<and> map_of s30 k = Some b" for k a b
  proof -
    from that have "k \<in> set (map fst s30)" by (metis map_of_eq_None_iff option.distinct(1) set_map)
    then have "k \<in> set ks" using ks(2) by simp
    then show ?thesis using that by (simp add: m G_def value_or_null_Some)
  qed
  have 5: "map_of g k = Some NaN"
    if "(k \<in> set (map fst s30)) \<noteq> (k \<in> set (map fst s25))" for k
  proof -
    from that have "k \<in> set ks" using ks(2) by auto
    moreover from that have "value_or_null s30 k = NaN \<or> value_or_null s25 k = NaN"
      using value_or_null_absent by blast
    ultimately show ?thesis by (auto simp: m G_def)
  qed
  have 6: "analyze_sector_wise_consumption st
             = (say ([Text ''SECTOR-WISE CONSUMPTION ANALYSIS'',
                      Text ''2025 SECTOR BREAKDOWN:'', Frame shown_2025,
                      Text ''2030 PROJECTED SECTOR BREAKDOWN:'', Frame shown_2030,
                      Text ''SECTOR GROWTH (2025-2030):'']
                     @ map (\<lambda>(k, v). GrowthLine k v) g) st, None)"
    if h: "map_of (data st) ''sector_wise'' = Some df
         \<and> year_rows df 2025 = Inr df_2025 \<and> year_rows df 2030 = Inr df_2030
         \<and> select sector_columns df_2025 = Inr shown_2025
         \<and> select sector_columns df_2030 = Inr shown_2030" for st df shown_2025 shown_2030
  proof -
    have "sector_wise_consumption df
        = ([Text ''2025 SECTOR BREAKDOWN:'', Frame shown_2025,
            Text ''2030 PROJECTED SECTOR BREAKDOWN:'', Frame shown_2030,
            Text ''SECTOR GROWTH (2025-2030):''] @ map (\<lambda>(k, v). GrowthLine k v) g, None)"
      using h by (simp add: sector_wise_consumption_def 1 Let_def)
    then show ?thesis using h by (simp add: analyze_sector_wise_consumption_def)
  qed
  have d: "distinct (map fst g)" using keys ks(1) by simp
  have u: "set (map fst g) = set (map fst s30) \<union> set (map fst s25)" using keys ks(2) by simp
  from 1 d u 4 5 6 show ?thesis by blast
qed

theorem sector_growth_keys_witness:
  "sector_growth
     [(''Year'', NumCol [Fin 2025, Fin 2025]), (''Sector'', StrCol [''Domestic'', ''Others'']),
      (''Demand_MU'', NumCol [Fin 100, Fin 10]), (''Share_%'', NumCol [Fin 91, Fin 9])]
     [(''Year'', NumCol [Fin 2030, Fin 2030]), (''Sector'', StrCol [''Domestic'', ''Commercial'']),
      (''Demand_MU'', NumCol [Fin 150, Fin 80]), (''Share_%'', NumCol [Fin 65, Fin 35])]
   = Inr [(Str ''Commercial'', NaN), (Str ''Domestic'', Fin 50), (Str ''Others'', NaN)]
   \<and> spec_sector_growth (Fin 100) (Fin 150) = Fin 50
   \<and> analyze_sector_wise_consumption
        \<lparr>data = [(''sector_wise'',
            [(''Year'', NumCol [Fin 2025, Fin 2025, Fin 2030, Fin 2030]),
             (''Sector'', StrCol [''Domestic'', ''Others'', ''Domestic'', ''Commercial'']),
             (''Demand_MU'', NumCol [Fin 100, Fin 10, Fin 150, Fin 80]),
             (''Share_%'', NumCol [Fin 91, Fin 9, Fin 65, Fin 35])])],
         out = []\<rparr>
     = (\<lparr>data = [(''sector_wise'',
            [(''Year'', NumCol [Fin 2025, Fin 2025, Fin 2030, Fin 2030]),
             (''Sector'', StrCol [''Domestic'', ''Others'', ''Domestic'', ''Commercial'']),
             (''Demand_MU'', NumCol [Fin 100, Fin 10, Fin 150, Fin 80]),
             (''Share_%'', NumCol [Fin 91, Fin 9, Fin 65, Fin 35])])],
         out = [Text ''SECTOR-WISE CONSUMPTION ANALYSIS'',
                Text ''2025 SECTOR BREAKDOWN:'',
                Frame [(''Sector'', StrCol [''Domestic'', ''Others'']),
                       (''Demand_MU'', NumCol [Fin 100, Fin 10]),
                       (''Share_%'', NumCol [Fin 91, Fin 9])],
                Text ''2030 PROJECTED SECTOR BREAKDOWN:'',
                Frame [(''Sector'', StrCol [''Domestic'', ''Commercial'']),
                       (''Demand_MU'', NumCol [Fin 150, Fin 80]),
                       (''Share_%'', NumCol [Fin 65, Fin 35])],
                Text ''SECTOR GROWTH (2025-2030):'',
                GrowthLine (Str ''Commercial'') NaN,
                GrowthLine (Str ''Domestic'') (Fin 50),
                GrowthLine (Str ''Others'') NaN]\<rparr>, None)"
proof -
  let ?a = "[(''Year'', NumCol [Fin 2025, Fin 2025]), (''Sector'', StrCol [''Domestic'', ''Others'']),
      (''Demand_MU'', NumCol [Fin 100, Fin 10]), (''Share_%'', NumCol [Fin 91, Fin 9])]"
  let ?b = "[(''Year'', NumCol [Fin 2030, Fin 2030]), (''Sector'', StrCol [''Domestic'', ''Commercial'']),
      (''Demand_MU'', NumCol [Fin 150, Fin 80]), (''Share_%'', NumCol [Fin 65, Fin 35])]"
  let ?df = "[(''Year'', NumCol [Fin 2025, Fin 2025, Fin 2030, Fin 2030]),
             (''Sector'', StrCol [''Domestic'', ''Others'', ''Domestic'', ''Commercial'']),
             (''Demand_MU'', NumCol [Fin 100, Fin 10, Fin 150, Fin 80]),
             (''Share_%'', NumCol [Fin 91, Fin 9, Fin 65, Fin 35])]"
  let ?st = "\<lparr>data = [(''sector_wise'', ?df)], out = []\<rparr>"
  let ?sh25 = "[(''Sector'', StrCol [''Domestic'', ''Others'']),
                (''Demand_MU'', NumCol [Fin 100, Fin 10]), (''Share_%'', NumCol [Fin 91, Fin 9])]"
  let ?sh30 = "[(''Sector'', StrCol [''Domestic'', ''Commercial'']),
                (''Demand_MU'', NumCol [Fin 150, Fin 80]), (''Share_%'', NumCol [Fin 65, Fin 35])]"
  let ?s25 = "[(Str ''Domestic'', Fin 100), (Str ''Others'', Fin 10)]"
  let ?s30 = "[(Str ''Domestic'', Fin 150), (Str ''Commercial'', Fin 80)]"
  have s30: "indexed ?b ''Sector'' ''Demand_MU'' = Inr ?s30" by (simp add: indexed_def getcol_def)
  have s25: "indexed ?a ''Sector'' ''Demand_MU'' = Inr ?s25" by (simp add: indexed_def getcol_def)
  have d30: "distinct (map fst ?s30)" by simp
  have d25: "distinct (map fst ?s25)" by simp
  from sector_growth_keys[OF s30 s25 d30 d25] obtain g where
    g: "sector_growth ?a ?b = Inr g"
       "\<forall>k a b. map_of ?s25 k = Some a \<and> map_of ?s30 k = Some b \<longrightarrow>
            map_of g k = Some (spec_sector_growth a b)"
       "\<forall>k. (k \<in> set (map fst ?s30)) \<noteq> (k \<in> set (map fst ?s25)) \<longrightarrow> map_of g k = Some NaN"
       "\<forall>st df shown_2025 shown_2030.
                 map_of (data st) ''sector_wise'' = Some df
               \<and> year_rows df 2025 = Inr ?a \<and> year_rows df 2030 = Inr ?b
               \<and> select sector_columns ?a = Inr shown_2025
               \<and> select sector_columns ?b = Inr shown_2030 \<longrightarrow>
                 analyze_sector_wise_consumption st
                   = (say ([Text ''SECTOR-WISE CONSUMPTION ANALYSIS'',
                            Text ''2025 SECTOR BREAKDOWN:'', Frame shown_2025,
                            Text ''2030 PROJECTED SECTOR BREAKDOWN:'', Frame shown_2030,
                            Text ''SECTOR GROWTH (2025-2030):'']
                           @ map (\<lambda>(k, v). GrowthLine k v) g) st, None)"
    by blast
  have o: "sector_growth ?a ?b = Inr [(Str ''Commercial'', NaN), (Str ''Domestic'', Fin 50),
          (Str ''Others'', NaN)]"
    by code_simp
  with g(1) have ge: "g = [(Str ''Commercial'', NaN), (Str ''Domestic'', Fin 50),
          (Str ''Others'', NaN)]" by simp
  from g(2) have "map_of g (Str ''Domestic'') = Some (spec_sector_growth (Fin 100) (Fin 150))"
    by simp
  then have sp: "spec_sector_growth (Fin 100) (Fin 150) = Fin 50" unfolding ge by simp
  from g(3) have "map_of g (Str ''Others'') = Some NaN" by simp
  have y25: "year_rows ?df 2025 = Inr ?a" by (simp add: year_rows_def getcol_def filter_rows_def)
  have y30: "year_rows ?df 2030 = Inr ?b" by (simp add: year_rows_def getcol_def filter_rows_def)
  have c25: "select sector_columns ?a = Inr ?sh25" by (simp add: sector_columns_def getcol_def)
  have c30: "select sector_columns ?b = Inr ?sh30" by (simp add: sector_columns_def getcol_def)
  have dk: "map_of (data ?st) ''sector_wise'' = Some ?df" by simp
  from g(4)[rule_format, of ?st ?df ?sh25 ?sh30] dk y25 y30 c25 c30
  have "analyze_sector_wise_consumption ?st
      = (say ([Text ''SECTOR-WISE CONSUMPTION ANALYSIS'',
               Text ''2025 SECTOR BREAKDOWN:'', Frame ?sh25,
               Text ''2030 PROJECTED SECTOR BREAKDOWN:'', Frame ?sh30,
               Text ''SECTOR GROWTH (2025-2030):'']
              @ map (\<lambda>(k, v). GrowthLine k v) g) ?st, None)"
    by blast
  then have p: "analyze_sector_wise_consumption ?st
      = (\<lparr>data = [(''sector_wise'', ?df)],
          out = [Text ''SECTOR-WISE CONSUMPTION ANALYSIS'',
                Text ''2025 SECTOR BREAKDOWN:'', Frame ?sh25,
                Text ''2030 PROJECTED SECTOR BREAKDOWN:'', Frame ?sh30,
                Text ''SECTOR GROWTH (2025-2030):'',
                GrowthLine (Str ''Commercial'') NaN,
                GrowthLine (Str ''Domestic'') (Fin 50),
                GrowthLine (Str ''Others'') NaN]\<rparr>, None)"
    unfolding ge by (simp add: say_def)
  from o sp p show ?thesis by (intro conjI)
qed

text \<open>
  The claim as stated fails on a table where the sector Commercial has a row for 2030
  only: the analysis prints a growth line for it, with a null value, and nothing else.
\<close>

theorem sector_growth_missing_key_counterexample:
  "sector_wise_consumption
     [(''Year'', NumCol [Fin 2025, Fin 2030, Fin 2030]),
      (''Sector'', StrCol [''Domestic'', ''Domestic'', ''Commercial'']),
      (''Demand_MU'', NumCol [Fin 100, Fin 150, Fin 80]),
      (''Share_%'', NumCol [Fin 100, Fin 65, Fin 35])]
   = ([Text ''2025 SECTOR BREAKDOWN:'',
       Frame [(''Sector'', StrCol [''Domestic'']), (''Demand_MU'', NumCol [Fin 100]),
              (''Share_%'', NumCol [Fin 100])],
       Text ''2030 PROJECTED SECTOR BREAKDOWN:'',
       Frame [(''Sector'', StrCol [''Domestic'', ''Commercial'']),
              (''Demand_MU'', NumCol [Fin 150, Fin 80]), (''Share_%'', NumCol [Fin 65, Fin 35])],
       Text ''SECTOR GROWTH (2025-2030):'',
       GrowthLine (Str ''Commercial'') NaN,
       GrowthLine (Str ''Domestic'') (Fin 50)], None)"
  by code_simp

section \<open>C9: weekday and weekend load profiles\<close>

lemma getcol_filter_rows:
  "getcol (filter_rows m df) name =
     (case getcol df name of Inl e \<Rightarrow> Inl e | Inr c \<Rightarrow> Inr (filter_col m c))"
proof -
  have "map_of (filter_rows m df) name = map_option (filter_col m) (map_of df name)"
    unfolding filter_rows_def by (induction df) auto
  then show ?thesis by (simp add: getcol_def split: option.splits)
qed

lemma length_isin [simp]: "length (isin c names) = col_len c"
  by (cases c) simp_all

lemma partition_group:
  assumes "length m = length ks" "length vs = length ks" "inj C"
  shows "map snd (filter (\<lambda>(k', v). k' = k)
           (zip (map snd (filter fst (zip (map (\<lambda>w. w = flag) m) ks)))
                (map snd (filter fst (zip (map (\<lambda>w. w = flag) m) vs)))))
       = map (snd \<circ> snd) (filter (\<lambda>(w, h, v). w = flag \<and> h = C k) (zip m (zip (map C ks) vs)))"
  using assms(1) assms(2)[symmetric]
proof (induction m ks vs rule: list_induct3)
  case Nil
  then show ?case by simp
next
  case (Cons w m h ks v vs)
  then show ?case using assms(3) by (auto dest: injD)
qed

lemma group_mean_partition:
  assumes "length m = length ks" "length vs = length ks" "inj C"
  shows "group_mean (map snd (filter fst (zip (map (\<lambda>w. w = flag) m) ks)))
                    (map snd (filter fst (zip (map (\<lambda>w. w = flag) m) vs))) k
       = spec_profile flag m (map C ks) vs (C k)"
  unfolding group_mean_def spec_profile_def by (simp only: partition_group[OF assms])

lemma partition_keys_list:
  assumes "length m = length ks" and pq: "\<And>k. Q (C k) = P k"
  shows "map C (filter P (map snd (filter fst (zip (map (\<lambda>w. w = flag) m) ks))))
       = map snd (filter (\<lambda>(w, h). w = flag \<and> Q h) (zip m (map C ks)))"
  using assms(1)
proof (induction m ks rule: list_induct2)
  case Nil
  then show ?case by simp
next
  case (Cons w m k ks)
  then show ?case by (simp add: pq)
qed

lemma partition_keys:
  assumes "length m = length ks" and pq: "\<And>k. Q (C k) = P k"
  shows "set (map C (filter P (map snd (filter fst (zip (map (\<lambda>w. w = flag) m) ks)))))
       = set (map snd (filter (\<lambda>(w, h). w = flag \<and> Q h) (zip m (map C ks))))"
  by (simp only: partition_keys_list[of m ks Q C P flag, OF assms])

lemma isin_cells:
  "isin dc weekend_days = map (\<lambda>d. d = Str ''Saturday'' \<or> d = Str ''Sunday'') (cells dc)"
  by (cases dc) (auto simp: weekend_days_def)

lemma profile_part:
  assumes hour: "getcol df ''Hour'' = Inr hc"
    and dem: "getcol df ''Demand_MW'' = Inr (NumCol vs)"
    and lm: "length m = length vs"
    and lh: "col_len hc = length vs"
  shows "\<exists>keys avgs.
           groupby_mean (filter_rows (map (\<lambda>w. w = flag) m) df) ''Hour'' ''Demand_MW''
             = Inr (keys, avgs)
         \<and> distinct (cells keys)
         \<and> set (cells keys)
             = set (map snd (filter (\<lambda>(w, h). w = flag \<and> h \<noteq> Num NaN) (zip m (cells hc))))
         \<and> avgs = map (spec_profile flag m (cells hc) vs) (cells keys)"
proof (cases hc)
  case (StrCol hs)
  let ?mask = "map (\<lambda>w. w = flag) m"
  let ?fk = "map snd (filter fst (zip ?mask hs))"
  let ?fv = "map snd (filter fst (zip ?mask vs))"
  let ?gs = "sort_by (\<le>) (remdups ?fk)"
  have l: "length m = length hs" "length vs = length hs" using lm lh StrCol by simp_all
  have g: "groupby_mean (filter_rows ?mask df) ''Hour'' ''Demand_MW''
         = Inr (StrCol ?gs, map (group_mean ?fk ?fv) ?gs)"
    by (simp add: groupby_mean_def getcol_filter_rows hour dem StrCol Let_def)
  have a: "map (group_mean ?fk ?fv) ?gs = map (spec_profile flag m (cells hc) vs) (cells (StrCol ?gs))"
    by (simp add: StrCol comp_def group_mean_partition[OF l, where C = Str] inj_def)
  have d: "distinct (cells (StrCol ?gs))" by (simp add: distinct_map inj_on_def)
  have "set (cells (StrCol ?gs)) = set (map Str (filter (\<lambda>k. True) ?fk))"
    by (simp add: image_image)
  also have "\<dots> = set (map snd (filter (\<lambda>(w, h). w = flag \<and> h \<noteq> Num NaN) (zip m (map Str hs))))"
    by (rule partition_keys[OF l(1)]) simp
  finally have s: "set (cells (StrCol ?gs))
      = set (map snd (filter (\<lambda>(w, h). w = flag \<and> h \<noteq> Num NaN) (zip m (cells hc))))"
    by (simp add: StrCol)
  from g a d s show ?thesis by blast
next
  case (NumCol hs)
  let ?mask = "map (\<lambda>w. w = flag) m"
  let ?fk = "map snd (filter fst (zip ?mask hs))"
  let ?fv = "map snd (filter fst (zip ?mask vs))"
  let ?gs = "sort_by fle (remdups (filter notna ?fk))"
  have l: "length m = length hs" "length vs = length hs" using lm lh NumCol by simp_all
  have g: "groupby_mean (filter_rows ?mask df) ''Hour'' ''Demand_MW''
         = Inr (NumCol ?gs, map (group_mean ?fk ?fv) ?gs)"
    by (simp add: groupby_mean_def getcol_filter_rows hour dem NumCol Let_def)
  have a: "map (group_mean ?fk ?fv) ?gs = map (spec_profile flag m (cells hc) vs) (cells (NumCol ?gs))"
    by (simp add: NumCol comp_def group_mean_partition[OF l, where C = Num] inj_def)
  have d: "distinct (cells (NumCol ?gs))" by (simp add: distinct_map inj_on_def)
  have "set (cells (NumCol ?gs)) = set (map Num (filter notna ?fk))"
    by (simp add: image_image)
  also have "\<dots> = set (map snd (filter (\<lambda>(w, h). w = flag \<and> h \<noteq> Num NaN) (zip m (map Num hs))))"
    by (rule partition_keys[OF l(1)]) (simp add: notna_def)
  finally have s: "set (cells (NumCol ?gs))
      = set (map snd (filter (\<lambda>(w, h). w = flag \<and> h \<noteq> Num NaN) (zip m (cells hc))))"
    by (simp add: NumCol)
  from g a d s show ?thesis by blast
qed

lemma buckets_bound:
  assumes "distinct ks" "set ks \<subseteq> H" "finite H" "card H \<le> n"
  shows "length ks \<le> n"
proof -
  have "length ks = card (set ks)" using assms(1) by (simp add: distinct_card)
  also have "\<dots> \<le> card H" using assms(2,3) by (rule card_mono[rotated])
  finally show ?thesis using assms(4) by simp
qed

text \<open>
  Claim C9. For a daily-load table (columns of one length) whose hour values lie in a
  set of at most 24 hours, \<open>create_daily_load_profile\<close> computes both profiles: the
  rows are split by whether the day is Saturday or Sunday; the buckets of a profile are
  exactly the (non-null) hours of the rows of its partition, each once; every bucket
  holds the mean of the demand over the rows of that partition with that hour; and
  each profile has at most 24 buckets.
\<close>

theorem load_profile_buckets:
  assumes day: "getcol df ''Day'' = Inr dc"
    and hour: "getcol df ''Hour'' = Inr hc"
    and dem: "getcol df ''Demand_MW'' = Inr (NumCol vs)"
    and ld: "col_len dc = length vs"
    and lh: "col_len hc = length vs"
    and hrs: "set (cells hc) \<subseteq> H" "finite H" "card H \<le> 24"
  shows "\<exists>is_weekend weekday_hours weekday_means weekend_hours weekend_means.
           is_weekend = map (\<lambda>d. d = Str ''Saturday'' \<or> d = Str ''Sunday'') (cells dc)
         \<and> weekday_avg df = Inr (weekday_hours, weekday_means)
         \<and> weekend_avg df = Inr (weekend_hours, weekend_means)
         \<and> distinct (cells weekday_hours) \<and> distinct (cells weekend_hours)
         \<and> set (cells weekday_hours)
             = set (map snd (filter (\<lambda>(w, h). \<not> w \<and> h \<noteq> Num NaN) (zip is_weekend (cells hc))))
         \<and> set (cells weekend_hours)
             = set (map snd (filter (\<lambda>(w, h). w \<and> h \<noteq> Num NaN) (zip is_weekend (cells hc))))
         \<and> set (cells weekday_hours) \<subseteq> H \<and> set (cells weekend_hours) \<subseteq> H
         \<and> length (cells weekday_hours) \<le> 24 \<and> length (cells weekend_hours) \<le> 24
         \<and> weekday_means = map (spec_profile False is_weekend (cells hc) vs) (cells weekday_hours)
         \<and> weekend_means = map (spec_profile True is_weekend (cells hc) vs) (cells weekend_hours)"
proof -
  let ?m = "isin dc weekend_days"
  have lm: "length ?m = length vs" using ld by simp
  have wd: "map Not ?m = map (\<lambda>w. w = False) ?m" by simp
  have we: "?m = map (\<lambda>w. w = True) ?m" by simp
  from profile_part[OF hour dem lm lh, of False] obtain k1 a1 where
    1: "weekday_avg df = Inr (k1, a1)" "distinct (cells k1)"
       "set (cells k1)
          = set (map snd (filter (\<lambda>(w, h). w = False \<and> h \<noteq> Num NaN) (zip ?m (cells hc))))"
       "a1 = map (spec_profile False ?m (cells hc) vs) (cells k1)"
    unfolding weekday_avg_def day wd by auto
  from profile_part[OF hour dem lm lh, of True] obtain k2 a2 where
    2: "weekend_avg df = Inr (k2, a2)" "distinct (cells k2)"
       "set (cells k2)
          = set (map snd (filter (\<lambda>(w, h). w = True \<and> h \<noteq> Num NaN) (zip ?m (cells hc))))"
       "a2 = map (spec_profile True ?m (cells hc) vs) (cells k2)"
    unfolding weekend_avg_def day by auto
  have e1: "set (cells k1)
      = set (map snd (filter (\<lambda>(w, h). \<not> w \<and> h \<noteq> Num NaN) (zip ?m (cells hc))))"
    using 1(3) by simp
  have e2: "set (cells k2)
      = set (map snd (filter (\<lambda>(w, h). w \<and> h \<noteq> Num NaN) (zip ?m (cells hc))))"
    using 2(3) by simp
  have s1: "set (cells k1) \<subseteq> H" using hrs(1) unfolding e1 by (auto dest: set_zip_rightD)
  have s2: "set (cells k2) \<subseteq> H" using hrs(1) unfolding e2 by (auto dest: set_zip_rightD)
  have b1: "length (cells k1) \<le> 24" by (rule buckets_bound[OF 1(2) s1 hrs(2,3)])
  have b2: "length (cells k2) \<le> 24" by (rule buckets_bound[OF 2(2) s2 hrs(2,3)])
  have m: "?m = map (\<lambda>d. d = Str ''Saturday'' \<or> d = Str ''Sunday'') (cells dc)"
    by (rule isin_cells)
  show ?thesis
    apply (rule exI[where x = ?m])
    apply (rule exI[where x = k1])
    apply (rule exI[where x = a1])
    apply (rule exI[where x = k2])
    apply (rule exI[where x = a2])
    using m 1(1,2,4) 2(1,2,4) e1 e2 s1 s2 b1 b2 apply (intro conjI)
    apply assumption+
    done
qed


theorem load_profile_buckets_witness:
  "weekday_avg [(''Day'', StrCol [''Monday'', ''Sunday'', ''Tuesday'', ''Saturday'']),
                (''Hour'', NumCol [Fin 1, Fin 1, Fin 2, Fin 1]),
                (''Demand_MW'', NumCol [Fin 4, Fin 6, Fin 8, Fin 10])]
     = Inr (NumCol [Fin 1, Fin 2], [Fin 4, Fin 8])
   \<and> weekend_avg [(''Day'', StrCol [''Monday'', ''Sunday'', ''Tuesday'', ''Saturday'']),
                  (''Hour'', NumCol [Fin 1, Fin 1, Fin 2, Fin 1]),
                  (''Demand_MW'', NumCol [Fin 4, Fin 6, Fin 8, Fin 10])]
     = Inr (NumCol [Fin 1], [Fin 8])
   \<and> spec_profile False [False, True, False, True]
        [Num (Fin 1), Num (Fin 1), Num (Fin 2), Num (Fin 1)] [Fin 4, Fin 6, Fin 8, Fin 10]
        (Num (Fin 1)) = Fin 4
   \<and> spec_profile True [False, True, False, True]
        [Num (Fin 1), Num (Fin 1), Num (Fin 2), Num (Fin 1)] [Fin 4, Fin 6, Fin 8, Fin 10]
        (Num (Fin 1)) = Fin 8"
proof -
  let ?dc = "StrCol [''Monday'', ''Sunday'', ''Tuesday'', ''Saturday'']"
  let ?hc = "NumCol [Fin 1, Fin 1, Fin 2, Fin 1]"
  let ?vs = "[Fin 4, Fin 6, Fin 8, Fin 10]"
  let ?df = "[(''Day'', ?dc), (''Hour'', ?hc), (''Demand_MW'', NumCol ?vs)]"
  let ?H = "(\<lambda>n. Num (Fin (real n))) ` {..< 24 :: nat}"
  have day: "getcol ?df ''Day'' = Inr ?dc" by (simp add: getcol_def)
  have hour: "getcol ?df ''Hour'' = Inr ?hc" by (simp add: getcol_def)
  have dem: "getcol ?df ''Demand_MW'' = Inr (NumCol ?vs)" by (simp add: getcol_def)
  have ld: "col_len ?dc = length ?vs" by simp
  have lh: "col_len ?hc = length ?vs" by simp
  have "Num (Fin 1) = Num (Fin (real (1::nat)))" by simp
  then have i1: "Num (Fin 1) \<in> ?H" by (intro image_eqI[where x = "1::nat"]) simp_all
  have "Num (Fin 2) = Num (Fin (real (2::nat)))" by simp
  then have i2: "Num (Fin 2) \<in> ?H" by (intro image_eqI[where x = "2::nat"]) simp_all
  from i1 i2 have h1: "set (cells ?hc) \<subseteq> ?H" by simp
  have h2: "finite ?H" by simp
  have "card ?H \<le> card {..< 24 :: nat}" by (rule card_image_le) simp
  then have h3: "card ?H \<le> 24" by simp
  from load_profile_buckets[OF day hour dem ld lh h1 h2 h3] obtain m k1 a1 k2 a2 where
    r: "m = map (\<lambda>d. d = Str ''Saturday'' \<or> d = Str ''Sunday'') (cells ?dc)"
       "weekday_avg ?df = Inr (k1, a1)"
       "weekend_avg ?df = Inr (k2, a2)"
       "a1 = map (spec_profile False m (cells ?hc) ?vs) (cells k1)"
       "a2 = map (spec_profile True m (cells ?hc) ?vs) (cells k2)"
    by blast
  have o1: "weekday_avg ?df = Inr (NumCol [Fin 1, Fin 2], [Fin 4, Fin 8])" by code_simp
  have o2: "weekend_avg ?df = Inr (NumCol [Fin 1], [Fin 8])" by code_simp
  from r(2) o1 have k1: "k1 = NumCol [Fin 1, Fin 2]" "a1 = [Fin 4, Fin 8]" by simp_all
  from r(3) o2 have k2: "k2 = NumCol [Fin 1]" "a2 = [Fin 8]" by simp_all
  from r(1) have m: "m = [False, True, False, True]" by simp
  from r(4) have p1: "spec_profile False [False, True, False, True]
        [Num (Fin 1), Num (Fin 1), Num (Fin 2), Num (Fin 1)] ?vs (Num (Fin 1)) = Fin 4"
    unfolding k1 m by simp
  from r(5) have p2: "spec_profile True [False, True, False, True]
        [Num (Fin 1), Num (Fin 1), Num (Fin 2), Num (Fin 1)] ?vs (Num (Fin 1)) = Fin 8"
    unfolding k2 m by simp
  from o1 o2 p1 p2 show ?thesis by (intro conjI)
qed

section \<open>C10: what \<open>load_all_data\<close> returns\<close>

lemma data_say [simp]: "data (say evs st) = data st"
  by (simp add: say_def)

lemma out_say [simp]: "out (say evs st) = out st @ evs"
  by (simp add: say_def)

lemma has_key_say [simp]: "has_key (say evs st) key = has_key st key"
  by (simp add: has_key_def)

lemma load_loop_ok:
  "(snd (load_loop fl fs st) = None) = (\<forall>kf \<in> set fl. \<forall>msg. fs (snd kf) \<noteq> Unreadable msg)"
proof (induction fl arbitrary: st)
  case Nil
  then show ?case by simp
next
  case (Cons kf fl)
  obtain key filename where kf: "kf = (key, filename)" by (cases kf)
  show ?case by (cases "fs filename") (simp_all add: kf Cons.IH)
qed




lemma load_loop_all_missing:
  "\<forall>kf \<in> set fl. fs (snd kf) = Missing \<Longrightarrow> data (fst (load_loop fl fs st)) = data st"
  by (induction fl arbitrary: st) (auto split: prod.splits)

lemma data_load_all_data: "data (fst (load_all_data fs st)) = data (fst (load_loop data_files fs st))"
  by (simp add: load_all_data_def split: prod.splits option.splits)

lemma snd_load_all_data: "snd (load_all_data fs st) = (snd (load_loop data_files fs st) = None)"
  by (auto simp: load_all_data_def split: prod.splits option.splits)


text \<open>
  Claim C10. \<open>load_all_data\<close> returns True exactly when reading no file raises
  anything other than FileNotFoundError. In particular it returns True when every file
  is missing, and then the registry is as it was: True does not say that a dataset is
  loaded.
\<close>

theorem load_all_data_true:
  "snd (load_all_data fs st) = (\<forall>kf \<in> set data_files. \<forall>msg. fs (snd kf) \<noteq> Unreadable msg)
   \<and> ((\<forall>kf \<in> set data_files. fs (snd kf) = Missing) \<longrightarrow>
         snd (load_all_data fs st) \<and> data (fst (load_all_data fs st)) = data st)"
proof -
  have 1: "snd (load_all_data fs st) = (\<forall>kf \<in> set data_files. \<forall>msg. fs (snd kf) \<noteq> Unreadable msg)"
    by (simp only: snd_load_all_data load_loop_ok)
  have 2: "snd (load_all_data fs st) \<and> data (fst (load_all_data fs st)) = data st"
    if m: "\<forall>kf \<in> set data_files. fs (snd kf) = Missing"
  proof -
    from m have "\<forall>kf \<in> set data_files. \<forall>msg. fs (snd kf) \<noteq> Unreadable msg" by simp
    with 1 have "snd (load_all_data fs st)" by simp
    moreover have "data (fst (load_all_data fs st)) = data st"
      by (simp only: data_load_all_data load_loop_all_missing[OF m])
    ultimately show ?thesis by simp
  qed
  from 1 2 show ?thesis by blast
qed

theorem load_all_data_true_witness:
  "snd (load_all_data (\<lambda>_. Missing) init) \<and> data (fst (load_all_data (\<lambda>_. Missing) init)) = []"
proof -
  have m: "\<forall>kf \<in> set data_files. (\<lambda>_. Missing) (snd kf) = Missing" by simp
  from load_all_data_true[of "\<lambda>_. Missing" init] m show ?thesis by (simp add: init_def)
qed

section \<open>C6: missing input files\<close>

lemma draw_data [simp]: "data (fst (draw render prepared st)) = data st"
  by (simp add: draw_def split: sum.splits option.splits)



lemma unchanged_data:
  "data (fst (analyze_seasonal_patterns s)) = data s"
  "data (fst (analyze_sector_wise_consumption s)) = data s"
  "data (fst (create_demand_projection_chart render s)) = data s"
  "data (fst (create_seasonal_heatmap render s)) = data s"
  "data (fst (create_sector_pie_chart render s)) = data s"
  "data (fst (create_daily_load_profile render s)) = data s"
  "data (fst (create_infrastructure_dashboard render s)) = data s"
  by (simp_all add: analyze_seasonal_patterns_def analyze_sector_wise_consumption_def
      create_demand_projection_chart_def create_seasonal_heatmap_def create_sector_pie_chart_def
      create_daily_load_profile_def create_infrastructure_dashboard_def
      split: option.splits prod.splits)





lemma run_append:
  assumes "run render pre st = (s, None)"
  shows "run render (pre @ rest) st = run render rest s"
  using assms
proof (induction pre arbitrary: st)
  case Nil
  then show ?case by simp
next
  case (Cons stmt pre)
  obtain s1 r where ex: "exec render stmt st = (s1, r)" by (cases "exec render stmt st")
  show ?case
  proof (cases r)
    case None
    then show ?thesis using Cons ex by simp
  next
    case (Some err)
    then show ?thesis using Cons.prems ex by simp
  qed
qed








section \<open>C7: a failure inside an analysis step\<close>

text \<open>
  Claim C7, as amended. No statement of \<open>generate_comprehensive_report\<close> is inside a
  \<open>try\<close>: when the statements before a method call have run normally and the call
  raises, the report ends there with that exception, in the state the method left. No
  later step runs: \<open>main\<close>, whose handler is the only one, adds to what was printed up to
  there the error line and the hint about the CSV files, once, and the program ends.
\<close>

theorem report_stops_at_first_failure:
  assumes body: "report_body = pre @ Call a # post"
    and before: "run render pre (report_start fs init) = (s, None)"
    and raised: "call render a s = (st', Some e)"
  shows "generate_comprehensive_report fs render init = (st', Some e)
       \<and> main fs render
           = say [MainFailed e,
                  Text ''Please ensure all CSV files are in the same directory as this script.'']
               st'
       \<and> out (main fs render)
           = out st' @ [MainFailed e,
                Text ''Please ensure all CSV files are in the same directory as this script.'']"
proof -
  have "run render report_body (report_start fs init) = run render (Call a # post) s"
    unfolding body by (rule run_append[OF before])
  also have "\<dots> = (st', Some e)" using raised by simp
  finally have g: "generate_comprehensive_report fs render init = (st', Some e)"
    by (simp add: generate_comprehensive_report_def)
  then show ?thesis by (simp add: main_def)
qed

theorem report_stops_at_first_failure_witness:
  "generate_comprehensive_report
     (case_option Missing Csv \<circ> map_of
       [(''chennai_electricity_historical_2020_2024.csv'',
           [(''Year'', NumCol [Fin 2020, Fin 2021])]),
        (''chennai_electricity_monthly_detailed_2023_2025.csv'',
           [(''Month'', StrCol [''Jan'', ''Feb'']), (''Demand_MU'', NumCol [Fin 100, Fin 120])])])
     (map_of []) init
   = (fst (analyze_historical_trends
        (say [Text ''Analyzing Historical Trends...'']
          (report_start
            (case_option Missing Csv \<circ> map_of
              [(''chennai_electricity_historical_2020_2024.csv'',
                  [(''Year'', NumCol [Fin 2020, Fin 2021])]),
               (''chennai_electricity_monthly_detailed_2023_2025.csv'',
                  [(''Month'', StrCol [''Jan'', ''Feb'']),
                   (''Demand_MU'', NumCol [Fin 100, Fin 120])])])
            init))),
      Some (KeyError ''Demand_MU''))
   \<and> out (main
        (case_option Missing Csv \<circ> map_of
          [(''chennai_electricity_historical_2020_2024.csv'',
              [(''Year'', NumCol [Fin 2020, Fin 2021])]),
           (''chennai_electricity_monthly_detailed_2023_2025.csv'',
              [(''Month'', StrCol [''Jan'', ''Feb'']), (''Demand_MU'', NumCol [Fin 100, Fin 120])])])
        (map_of []))
     = out (fst (analyze_historical_trends
        (say [Text ''Analyzing Historical Trends...'']
          (report_start
            (case_option Missing Csv \<circ> map_of
              [(''chennai_electricity_historical_2020_2024.csv'',
                  [(''Year'', NumCol [Fin 2020, Fin 2021])]),
               (''chennai_electricity_monthly_detailed_2023_2025.csv'',
                  [(''Month'', StrCol [''Jan'', ''Feb'']),
                   (''Demand_MU'', NumCol [Fin 100, Fin 120])])])
            init))))
       @ [MainFailed (KeyError ''Demand_MU''),
          Text ''Please ensure all CSV files are in the same directory as this script.'']"
proof -
  let ?fs = "case_option Missing Csv \<circ> map_of
       [(''chennai_electricity_historical_2020_2024.csv'',
           [(''Year'', NumCol [Fin 2020, Fin 2021])]),
        (''chennai_electricity_monthly_detailed_2023_2025.csv'',
           [(''Month'', StrCol [''Jan'', ''Feb'']), (''Demand_MU'', NumCol [Fin 100, Fin 120])])]"
  let ?r = "map_of [] :: chart \<Rightarrow> error option"
  let ?s = "say [Text ''Analyzing Historical Trends...''] (report_start ?fs init)"
  let ?post = "[Print ''Analyzing Seasonal Patterns...'', Call AnalyzeSeasonalPatterns,
      Print ''Analyzing Sector-wise Consumption...'', Call AnalyzeSectorWiseConsumption,
      Print ''Creating Visualizations...'',
      Print ''1. Demand Projection Chart:'', Call CreateDemandProjectionChart,
      Print ''2. Seasonal Heatmap:'', Call CreateSeasonalHeatmap,
      Print ''3. Sector Pie Chart:'', Call CreateSectorPieChart,
      Print ''4. Daily Load Profile:'', Call CreateDailyLoadProfile,
      Print ''5. Infrastructure Dashboard:'', Call CreateInfrastructureDashboard,
      Print ''Comprehensive analysis completed!'',
      Print ''All visualizations generated successfully!'']"
  have body: "report_body
      = [Print ''Analyzing Historical Trends...''] @ Call AnalyzeHistoricalTrends # ?post"
    by (simp add: report_body_def)
  have before: "run ?r [Print ''Analyzing Historical Trends...''] (report_start ?fs init)
      = (?s, None)"
    by simp
  have "snd (analyze_historical_trends ?s) = Some (KeyError ''Demand_MU'')" by code_simp
  then have raised: "call ?r AnalyzeHistoricalTrends ?s
      = (fst (analyze_historical_trends ?s), Some (KeyError ''Demand_MU''))"
    by (simp add: prod_eq_iff)
  from report_stops_at_first_failure[OF body before raised] show ?thesis by simp
qed

text \<open>
  The claim as stated fails when the historical table has no demand column and the
  monthly table is in order: the report ends inside the first analysis, the seasonal
  analysis is never started, and the only trace of the failure is the line of \<open>main\<close>.
\<close>

theorem report_aborted_counterexample:
  "out (main
     (case_option Missing Csv \<circ> map_of
       [(''chennai_electricity_historical_2020_2024.csv'',
           [(''Year'', NumCol [Fin 2020, Fin 2021])]),
        (''chennai_electricity_monthly_detailed_2023_2025.csv'',
           [(''Month'', StrCol [''Jan'', ''Feb'']), (''Demand_MU'', NumCol [Fin 100, Fin 120])])])
     (map_of []))
   = [Text ''Chennai Electricity Analytics Program Initialized'',
      Text ''COMPREHENSIVE CHENNAI ELECTRICITY ANALYTICS REPORT'',
      LoadedFile ''chennai_electricity_historical_2020_2024.csv'' (2, 1),
      LoadedFile ''chennai_electricity_monthly_detailed_2023_2025.csv'' (2, 2),
      MissingFile ''chennai_electricity_projections_2025_2030.csv'',
      MissingFile ''chennai_electricity_sector_wise_2025_2030.csv'',
      MissingFile ''chennai_electricity_daily_load_profile.csv'',
      MissingFile ''chennai_electricity_infrastructure_2025_2030.csv'',
      MissingFile ''chennai_economic_demographic_factors_2020_2030.csv'',
      MissingFile ''chennai_weather_data_2023_2025.csv'',
      MissingFile ''chennai_electricity_tariff_structure_2025_2030.csv'',
      LoadedTotal 2,
      Text ''DATA SUMMARY'',
      Summary ''historical'' (2, 1) [''Year''] [(''Year'', NumCol [Fin 2020, Fin 2021])],
      Summary ''monthly_detailed'' (2, 2) [''Month'', ''Demand_MU'']
        [(''Month'', StrCol [''Jan'', ''Feb'']), (''Demand_MU'', NumCol [Fin 100, Fin 120])],
      Text ''Analyzing Historical Trends...'',
      Text ''HISTORICAL TRENDS ANALYSIS (2020-2024)'',
      MainFailed (KeyError ''Demand_MU''),
      Text ''Please ensure all CSV files are in the same directory as this script.'']"
  by code_simp

section \<open>C8: what the analyses change\<close>

lemma map_of_setcol:
  "map_of (setcol g c df) name = (if name = g then Some c else map_of df name)"
  by (simp add: setcol_def update_conv')

lemma columns_setcol:
  "columns (setcol g c df) = (if g \<in> set (columns df) then columns df else columns df @ [g])"
  by (simp add: setcol_def columns_def update_keys)

lemma setcol_same: "map_of df g = Some c \<Longrightarrow> setcol g c df = df"
  by (simp add: setcol_def update_triv)

lemma historical_trends_table:
  "fst (historical_trends df) = df
   \<or> (\<exists>g1. growth_pct df ''Demand_MU'' = Inr g1
          \<and> fst (historical_trends df) = setcol ''Demand_Growth_%'' (NumCol g1) df)
   \<or> (\<exists>g1 g2. growth_pct df ''Demand_MU'' = Inr g1 \<and> growth_pct df ''Cost_Rs_per_unit'' = Inr g2
          \<and> fst (historical_trends df)
              = setcol ''Cost_Growth_%'' (NumCol g2) (setcol ''Demand_Growth_%'' (NumCol g1) df))"
  by (auto simp: historical_trends_def growth_pct_setcol Let_def split: sum.splits)

lemma historical_trends_frame:
  assumes "name \<noteq> ''Demand_Growth_%''" "name \<noteq> ''Cost_Growth_%''"
  shows "map_of (fst (historical_trends df)) name = map_of df name"
  using historical_trends_table[of df] assms by (auto simp: map_of_setcol)

lemma historical_trends_columns:
  "\<exists>added. columns (fst (historical_trends df)) = columns df @ added
         \<and> set added \<subseteq> {''Demand_Growth_%'', ''Cost_Growth_%''}"
proof -
  have a: "\<exists>added. columns (setcol g c t) = columns t @ added \<and> set added \<subseteq> {g}" for g c t
    by (cases "g \<in> set (columns t)") (simp_all add: columns_setcol)
  from historical_trends_table[of df] show ?thesis
  proof (elim disjE exE conjE)
    assume "fst (historical_trends df) = df"
    then show ?thesis by simp
  next
    fix g1
    assume e: "fst (historical_trends df) = setcol ''Demand_Growth_%'' (NumCol g1) df"
    from a[of "''Demand_Growth_%''" "NumCol g1" df] show ?thesis unfolding e by auto
  next
    fix g1 g2
    assume e: "fst (historical_trends df)
        = setcol ''Cost_Growth_%'' (NumCol g2) (setcol ''Demand_Growth_%'' (NumCol g1) df)"
    let ?df1 = "setcol ''Demand_Growth_%'' (NumCol g1) df"
    from a[of "''Demand_Growth_%''" "NumCol g1" df] obtain a1 where
      1: "columns ?df1 = columns df @ a1" "set a1 \<subseteq> {''Demand_Growth_%''}" by blast
    from a[of "''Cost_Growth_%''" "NumCol g2" ?df1] obtain a2 where
      2: "columns (setcol ''Cost_Growth_%'' (NumCol g2) ?df1) = columns ?df1 @ a2"
         "set a2 \<subseteq> {''Cost_Growth_%''}" by blast
    have "columns (fst (historical_trends df)) = columns df @ (a1 @ a2)"
      unfolding e 2(1) 1(1) by simp
    moreover have "set (a1 @ a2) \<subseteq> {''Demand_Growth_%'', ''Cost_Growth_%''}"
      using 1(2) 2(2) by auto
    ultimately show ?thesis by blast
  qed
qed

lemma historical_trends_idem:
  "historical_trends (fst (historical_trends df)) = historical_trends df"
proof (cases "growth_pct df ''Demand_MU''")
  case (Inl e)
  then show ?thesis by (simp add: historical_trends_def)
next
  case (Inr g1)
  let ?df1 = "setcol ''Demand_Growth_%'' (NumCol g1) df"
  have a1: "growth_pct ?df1 ''Demand_MU'' = Inr g1" using Inr by (simp add: growth_pct_setcol)
  have i1: "setcol ''Demand_Growth_%'' (NumCol g1) ?df1 = ?df1"
    by (rule setcol_same) (simp add: map_of_setcol)
  show ?thesis
  proof (cases "growth_pct ?df1 ''Cost_Rs_per_unit''")
    case (Inl e)
    have h: "historical_trends df = (?df1, [], Some e)"
      using Inr Inl by (simp add: historical_trends_def)
    have "historical_trends ?df1 = (?df1, [], Some e)"
      using a1 i1 Inl by (simp add: historical_trends_def)
    then show ?thesis by (simp add: h)
  next
    case g2: (Inr g2)
    let ?df2 = "setcol ''Cost_Growth_%'' (NumCol g2) ?df1"
    have a2: "growth_pct ?df2 ''Demand_MU'' = Inr g1" using a1 by (simp add: growth_pct_setcol)
    have i2: "setcol ''Demand_Growth_%'' (NumCol g1) ?df2 = ?df2"
      by (rule setcol_same) (simp add: map_of_setcol)
    have b2: "growth_pct ?df2 ''Cost_Rs_per_unit'' = Inr g2"
      using g2 by (simp add: growth_pct_setcol)
    have j2: "setcol ''Cost_Growth_%'' (NumCol g2) ?df2 = ?df2"
      by (rule setcol_same) (simp add: map_of_setcol)
    have f: "fst (historical_trends df) = ?df2"
      using Inr g2 by (simp add: historical_trends_def Let_def split: sum.splits)
    have "historical_trends ?df2 = historical_trends df"
      unfolding historical_trends_def[of ?df2] historical_trends_def[of df]
      by (simp add: a2 i2 b2 j2 Inr g2 Let_def)
    then show ?thesis by (simp add: f)
  qed
qed


lemma success_columns:
  "columns (setcol ''Cost_Growth_%'' c2 (setcol ''Demand_Growth_%'' c1 df))
     = columns df @ filter (\<lambda>g. g \<notin> set (columns df)) [''Demand_Growth_%'', ''Cost_Growth_%'']"
  by (simp add: columns_setcol)

lemma analyze_historical_trends_loaded:
  assumes "map_of (data st) ''historical'' = Some df"
  shows "analyze_historical_trends st
       = (say (Text ''HISTORICAL TRENDS ANALYSIS (2020-2024)'' # fst (snd (historical_trends df)))
            (st\<lparr>data := AList.update ''historical'' (fst (historical_trends df)) (data st)\<rparr>),
          snd (snd (historical_trends df)))"
  using assms by (simp add: analyze_historical_trends_def split: prod.splits)

lemma call_data:
  "a \<noteq> AnalyzeHistoricalTrends \<Longrightarrow> data (fst (call render a st)) = data st"
  by (cases a) (simp_all add: unchanged_data)

text \<open>
  Claim C8, as amended. \<open>analyze_historical_trends\<close> leaves the registry as it is but
  for the historical table, and that table as it is but for the columns named
  \<open>Demand_Growth_%\<close> and \<open>Cost_Growth_%\<close>: every other column keeps its values in
  their row order, the columns keep their order, and the only columns that can be added,
  after the existing ones, are these two. They are assigned in place: a column that
  already bears one of the two names is overwritten where it stands. When the analysis
  returns normally the table has both, holding the growth of the demand and of the
  cost. A second run on the same object finds the same inputs: it leaves the tables as
  the first run left them, prints the same lines and ends the same way. The other
  analyses and the chart methods change no table at all.
\<close>

theorem analyze_historical_trends_frame:
  assumes loaded: "map_of (data st) ''historical'' = Some df"
  shows "\<exists>df' printed err added.
           out (fst (analyze_historical_trends st))
             = out st @ Text ''HISTORICAL TRENDS ANALYSIS (2020-2024)'' # printed
         \<and> snd (analyze_historical_trends st) = err
         \<and> map_of (data (fst (analyze_historical_trends st))) ''historical'' = Some df'
         \<and> map fst (data (fst (analyze_historical_trends st))) = map fst (data st)
         \<and> (\<forall>key. key \<noteq> ''historical'' \<longrightarrow>
               map_of (data (fst (analyze_historical_trends st))) key = map_of (data st) key)
         \<and> (\<forall>name. name \<noteq> ''Demand_Growth_%'' \<and> name \<noteq> ''Cost_Growth_%'' \<longrightarrow>
               map_of df' name = map_of df name)
         \<and> columns df' = columns df @ added
         \<and> set added \<subseteq> {''Demand_Growth_%'', ''Cost_Growth_%''}
         \<and> (err = None \<longrightarrow>
               (\<exists>g1 g2. growth_pct df ''Demand_MU'' = Inr g1
                      \<and> growth_pct df ''Cost_Rs_per_unit'' = Inr g2
                      \<and> map_of df' ''Demand_Growth_%'' = Some (NumCol g1)
                      \<and> map_of df' ''Cost_Growth_%'' = Some (NumCol g2)
                      \<and> added = filter (\<lambda>g. g \<notin> set (columns df))
                                  [''Demand_Growth_%'', ''Cost_Growth_%'']))
         \<and> analyze_historical_trends (fst (analyze_historical_trends st))
             = (say (Text ''HISTORICAL TRENDS ANALYSIS (2020-2024)'' # printed)
                  (fst (analyze_historical_trends st)), err)
         \<and> (\<forall>render a. a \<noteq> AnalyzeHistoricalTrends \<longrightarrow>
               data (fst (call render a st)) = data st)"
proof -
  define df' where "df' = fst (historical_trends df)"
  define printed where "printed = fst (snd (historical_trends df))"
  define err where "err = snd (snd (historical_trends df))"
  let ?st1 = "fst (analyze_historical_trends st)"
  have h: "historical_trends df = (df', printed, err)"
    by (simp add: df'_def printed_def err_def)
  have r: "analyze_historical_trends st
      = (say (Text ''HISTORICAL TRENDS ANALYSIS (2020-2024)'' # printed)
           (st\<lparr>data := AList.update ''historical'' df' (data st)\<rparr>), err)"
    using analyze_historical_trends_loaded[OF loaded] by (simp add: df'_def printed_def err_def)
  have d1: "data ?st1 = AList.update ''historical'' df' (data st)" by (simp add: r)
  have 1: "out ?st1 = out st @ Text ''HISTORICAL TRENDS ANALYSIS (2020-2024)'' # printed"
    by (simp add: r)
  have 2: "snd (analyze_historical_trends st) = err" by (simp add: r)
  have 3: "map_of (data ?st1) ''historical'' = Some df'" by (simp add: d1 update_conv')
  have "''historical'' \<in> fst ` set (data st)"
    using loaded by (metis map_of_eq_None_iff option.distinct(1))
  then have 4: "map fst (data ?st1) = map fst (data st)" by (simp add: d1 update_keys)
  have 5: "\<forall>key. key \<noteq> ''historical'' \<longrightarrow> map_of (data ?st1) key = map_of (data st) key"
    by (simp add: d1 update_conv')
  have 6: "\<forall>name. name \<noteq> ''Demand_Growth_%'' \<and> name \<noteq> ''Cost_Growth_%'' \<longrightarrow>
               map_of df' name = map_of df name"
    using historical_trends_frame[of _ df] by (simp add: df'_def)
  from historical_trends_columns[of df] obtain added where
    7: "columns df' = columns df @ added"
    and 8: "set added \<subseteq> {''Demand_Growth_%'', ''Cost_Growth_%''}"
    unfolding df'_def by blast
  have 9: "err = None \<longrightarrow> (\<exists>g1 g2. growth_pct df ''Demand_MU'' = Inr g1
                      \<and> growth_pct df ''Cost_Rs_per_unit'' = Inr g2
                      \<and> map_of df' ''Demand_Growth_%'' = Some (NumCol g1)
                      \<and> map_of df' ''Cost_Growth_%'' = Some (NumCol g2)
                      \<and> added = filter (\<lambda>g. g \<notin> set (columns df))
                                  [''Demand_Growth_%'', ''Cost_Growth_%''])"
  proof
    assume that: "err = None"
    from h that have "historical_trends df = (df', printed, None)" by simp
    from historical_trends_success[OF this] obtain g1 g2 where
      g: "growth_pct df ''Demand_MU'' = Inr g1" "growth_pct df ''Cost_Rs_per_unit'' = Inr g2"
         "df' = setcol ''Cost_Growth_%'' (NumCol g2) (setcol ''Demand_Growth_%'' (NumCol g1) df)"
      by blast
    have m1: "map_of df' ''Demand_Growth_%'' = Some (NumCol g1)"
      unfolding g(3) by (simp add: map_of_setcol)
    have m2: "map_of df' ''Cost_Growth_%'' = Some (NumCol g2)"
      unfolding g(3) by (simp add: map_of_setcol)
    have "columns df @ added
        = columns df @ filter (\<lambda>g. g \<notin> set (columns df)) [''Demand_Growth_%'', ''Cost_Growth_%'']"
      using 7 unfolding g(3) by (simp only: success_columns)
    then have "added = filter (\<lambda>g. g \<notin> set (columns df)) [''Demand_Growth_%'', ''Cost_Growth_%'']"
      by (simp only: same_append_eq)
    with g(1,2) m1 m2 show "\<exists>g1 g2. growth_pct df ''Demand_MU'' = Inr g1
                      \<and> growth_pct df ''Cost_Rs_per_unit'' = Inr g2
                      \<and> map_of df' ''Demand_Growth_%'' = Some (NumCol g1)
                      \<and> map_of df' ''Cost_Growth_%'' = Some (NumCol g2)
                      \<and> added = filter (\<lambda>g. g \<notin> set (columns df))
                                  [''Demand_Growth_%'', ''Cost_Growth_%'']"
      by blast
  qed
  have "historical_trends df' = historical_trends df"
    unfolding df'_def by (rule historical_trends_idem)
  then have i: "historical_trends df' = (df', printed, err)" by (simp only: h)
  have "analyze_historical_trends ?st1
      = (say (Text ''HISTORICAL TRENDS ANALYSIS (2020-2024)'' # printed)
           (?st1\<lparr>data := AList.update ''historical'' df' (data ?st1)\<rparr>), err)"
    using analyze_historical_trends_loaded[OF 3] by (simp add: i)
  moreover have "AList.update ''historical'' df' (data ?st1) = data ?st1"
    using 3 by (rule update_triv)
  ultimately have 10: "analyze_historical_trends ?st1
      = (say (Text ''HISTORICAL TRENDS ANALYSIS (2020-2024)'' # printed) ?st1, err)"
    by simp
  have 11: "\<forall>render a. a \<noteq> AnalyzeHistoricalTrends \<longrightarrow> data (fst (call render a st)) = data st"
    by (simp add: call_data)
  show ?thesis
    by (intro exI conjI) (rule 1 2 3 4 5 6 7 8 9 10 11)+
qed


theorem analyze_historical_trends_frame_witness:
  "data (fst (analyze_historical_trends
      \<lparr>data = [(''historical'',
                 [(''Year'', NumCol [Fin 2020, Fin 2021]), (''Demand_MU'', NumCol [Fin 100, Fin 110]),
                  (''Cost_Rs_per_unit'', NumCol [Fin 5, Fin 6]),
                  (''Peak_Demand_MW'', NumCol [Fin 3000, Fin 3100])]),
                (''tariff'', [(''Slab'', StrCol [''A''])])],
       out = []\<rparr>))
     = [(''historical'',
          [(''Year'', NumCol [Fin 2020, Fin 2021]), (''Demand_MU'', NumCol [Fin 100, Fin 110]),
           (''Cost_Rs_per_unit'', NumCol [Fin 5, Fin 6]),
           (''Peak_Demand_MW'', NumCol [Fin 3000, Fin 3100]),
           (''Demand_Growth_%'', NumCol [NaN, Fin 10]), (''Cost_Growth_%'', NumCol [NaN, Fin 20])]),
        (''tariff'', [(''Slab'', StrCol [''A''])])]
   \<and> snd (analyze_historical_trends
      \<lparr>data = [(''historical'',
                 [(''Year'', NumCol [Fin 2020, Fin 2021]), (''Demand_MU'', NumCol [Fin 100, Fin 110]),
                  (''Cost_Rs_per_unit'', NumCol [Fin 5, Fin 6]),
                  (''Peak_Demand_MW'', NumCol [Fin 3000, Fin 3100])]),
                (''tariff'', [(''Slab'', StrCol [''A''])])],
       out = []\<rparr>) = None
   \<and> data (fst (analyze_historical_trends (fst (analyze_historical_trends
      \<lparr>data = [(''historical'',
                 [(''Year'', NumCol [Fin 2020, Fin 2021]), (''Demand_MU'', NumCol [Fin 100, Fin 110]),
                  (''Cost_Rs_per_unit'', NumCol [Fin 5, Fin 6]),
                  (''Peak_Demand_MW'', NumCol [Fin 3000, Fin 3100])]),
                (''tariff'', [(''Slab'', StrCol [''A''])])],
       out = []\<rparr>))))
     = [(''historical'',
          [(''Year'', NumCol [Fin 2020, Fin 2021]), (''Demand_MU'', NumCol [Fin 100, Fin 110]),
           (''Cost_Rs_per_unit'', NumCol [Fin 5, Fin 6]),
           (''Peak_Demand_MW'', NumCol [Fin 3000, Fin 3100]),
           (''Demand_Growth_%'', NumCol [NaN, Fin 10]), (''Cost_Growth_%'', NumCol [NaN, Fin 20])]),
        (''tariff'', [(''Slab'', StrCol [''A''])])]
   \<and> snd (analyze_historical_trends (fst (analyze_historical_trends
      \<lparr>data = [(''historical'',
                 [(''Year'', NumCol [Fin 2020, Fin 2021]), (''Demand_MU'', NumCol [Fin 100, Fin 110]),
                  (''Cost_Rs_per_unit'', NumCol [Fin 5, Fin 6]),
                  (''Peak_Demand_MW'', NumCol [Fin 3000, Fin 3100])]),
                (''tariff'', [(''Slab'', StrCol [''A''])])],
       out = []\<rparr>))) = None
   \<and> out (fst (analyze_historical_trends (fst (analyze_historical_trends
      \<lparr>data = [(''historical'',
                 [(''Year'', NumCol [Fin 2020, Fin 2021]), (''Demand_MU'', NumCol [Fin 100, Fin 110]),
                  (''Cost_Rs_per_unit'', NumCol [Fin 5, Fin 6]),
                  (''Peak_Demand_MW'', NumCol [Fin 3000, Fin 3100])]),
                (''tariff'', [(''Slab'', StrCol [''A''])])],
       out = []\<rparr>))))
     = out (fst (analyze_historical_trends
      \<lparr>data = [(''historical'',
                 [(''Year'', NumCol [Fin 2020, Fin 2021]), (''Demand_MU'', NumCol [Fin 100, Fin 110]),
                  (''Cost_Rs_per_unit'', NumCol [Fin 5, Fin 6]),
                  (''Peak_Demand_MW'', NumCol [Fin 3000, Fin 3100])]),
                (''tariff'', [(''Slab'', StrCol [''A''])])],
       out = []\<rparr>))
       @ out (fst (analyze_historical_trends
      \<lparr>data = [(''historical'',
                 [(''Year'', NumCol [Fin 2020, Fin 2021]), (''Demand_MU'', NumCol [Fin 100, Fin 110]),
                  (''Cost_Rs_per_unit'', NumCol [Fin 5, Fin 6]),
                  (''Peak_Demand_MW'', NumCol [Fin 3000, Fin 3100])]),
                (''tariff'', [(''Slab'', StrCol [''A''])])],
       out = []\<rparr>))
   \<and> data (fst (call (map_of []) CreateInfrastructureDashboard
      \<lparr>data = [(''historical'',
                 [(''Year'', NumCol [Fin 2020, Fin 2021]), (''Demand_MU'', NumCol [Fin 100, Fin 110]),
                  (''Cost_Rs_per_unit'', NumCol [Fin 5, Fin 6]),
                  (''Peak_Demand_MW'', NumCol [Fin 3000, Fin 3100])]),
                (''tariff'', [(''Slab'', StrCol [''A''])])],
       out = []\<rparr>))
     = [(''historical'',
          [(''Year'', NumCol [Fin 2020, Fin 2021]), (''Demand_MU'', NumCol [Fin 100, Fin 110]),
           (''Cost_Rs_per_unit'', NumCol [Fin 5, Fin 6]),
           (''Peak_Demand_MW'', NumCol [Fin 3000, Fin 3100])]),
        (''tariff'', [(''Slab'', StrCol [''A''])])]"
proof -
  let ?df = "[(''Year'', NumCol [Fin 2020, Fin 2021]), (''Demand_MU'', NumCol [Fin 100, Fin 110]),
              (''Cost_Rs_per_unit'', NumCol [Fin 5, Fin 6]),
              (''Peak_Demand_MW'', NumCol [Fin 3000, Fin 3100])]"
  let ?st = "\<lparr>data = [(''historical'', ?df), (''tariff'', [(''Slab'', StrCol [''A''])])], out = []\<rparr>"
  let ?st1 = "fst (analyze_historical_trends ?st)"
  have loaded: "map_of (data ?st) ''historical'' = Some ?df" by simp
  obtain df' printed err added where
    r: "out ?st1 = out ?st @ Text ''HISTORICAL TRENDS ANALYSIS (2020-2024)'' # printed"
       "snd (analyze_historical_trends ?st) = err"
       "analyze_historical_trends ?st1
          = (say (Text ''HISTORICAL TRENDS ANALYSIS (2020-2024)'' # printed) ?st1, err)"
       "\<forall>render a. a \<noteq> AnalyzeHistoricalTrends \<longrightarrow> data (fst (call render a ?st)) = data ?st"
    using analyze_historical_trends_frame[OF loaded] by (elim exE conjE) (rule that; assumption)
  have d: "data ?st1
      = [(''historical'',
          [(''Year'', NumCol [Fin 2020, Fin 2021]), (''Demand_MU'', NumCol [Fin 100, Fin 110]),
           (''Cost_Rs_per_unit'', NumCol [Fin 5, Fin 6]),
           (''Peak_Demand_MW'', NumCol [Fin 3000, Fin 3100]),
           (''Demand_Growth_%'', NumCol [NaN, Fin 10]), (''Cost_Growth_%'', NumCol [NaN, Fin 20])]),
        (''tariff'', [(''Slab'', StrCol [''A''])])]"
    by (simp add: analyze_historical_trends_def historical_trends_def growth_pct_def cagr_def
        peak_growth_def getcol_def setcol_def last_first_def fsub_def Let_def
        pct_change_def ffill_def shift1_def notna_def)
  have e: "snd (analyze_historical_trends ?st) = None"
    by (simp add: analyze_historical_trends_def historical_trends_def growth_pct_def cagr_def
        peak_growth_def getcol_def setcol_def last_first_def fsub_def Let_def)
  with r(2) have en: "err = None" by simp
  have d2: "data (fst (analyze_historical_trends ?st1)) = data ?st1" by (simp add: r(3))
  have e2: "snd (analyze_historical_trends ?st1) = None" by (simp add: r(3) en)
  have o1: "out ?st1 = Text ''HISTORICAL TRENDS ANALYSIS (2020-2024)'' # printed"
    using r(1) by simp
  have o2: "out (fst (analyze_historical_trends ?st1)) = out ?st1 @ out ?st1"
    by (simp add: r(3) o1[symmetric])
  have "CreateInfrastructureDashboard \<noteq> AnalyzeHistoricalTrends" by simp
  with r(4) have c: "data (fst (call (map_of []) CreateInfrastructureDashboard ?st)) = data ?st"
    by blast
  have c': "data (fst (call (map_of []) CreateInfrastructureDashboard ?st))
      = [(''historical'', ?df), (''tariff'', [(''Slab'', StrCol [''A''])])]"
    unfolding c by simp
  from d e d2 e2 o2 c' show ?thesis by (simp only: simp_thms)
qed

text \<open>
  The claim as stated fails on a historical table that already has a column
  \<open>Demand_Growth_%\<close>: its values are replaced, so a column that existed before the call
  is not what it was, and only one column is added.
\<close>

theorem growth_column_overwritten_counterexample:
  "data (fst (analyze_historical_trends
      \<lparr>data = [(''historical'',
                 [(''Demand_MU'', NumCol [Fin 100, Fin 110]),
                  (''Cost_Rs_per_unit'', NumCol [Fin 5, Fin 6]),
                  (''Peak_Demand_MW'', NumCol [Fin 3000, Fin 3100]),
                  (''Demand_Growth_%'', NumCol [Fin 1, Fin 2])])],
       out = []\<rparr>))
     = [(''historical'',
          [(''Demand_MU'', NumCol [Fin 100, Fin 110]),
           (''Cost_Rs_per_unit'', NumCol [Fin 5, Fin 6]),
           (''Peak_Demand_MW'', NumCol [Fin 3000, Fin 3100]),
           (''Demand_Growth_%'', NumCol [NaN, Fin 10]),
           (''Cost_Growth_%'', NumCol [NaN, Fin 20])])]"
  by (simp add: analyze_historical_trends_def historical_trends_def growth_pct_def cagr_def
      peak_growth_def getcol_def setcol_def last_first_def fsub_def Let_def
      pct_change_def ffill_def shift1_def notna_def)

end
